theory Spec2Isabelle
  imports Main "HOL-Library.Word"
begin

unbundle bit_operations_syntax

section \<open>The TLS context factory of XrdTls/XrdTlsContext.cc\<close>

text \<open>
  The constructor of \<open>XrdTlsContext\<close> talks to three things outside the file: the
  process (environment variables, file metadata), the OpenSSL library, and the
  message sink \<open>XrdTlsGlobal::msgCB\<close>. The first two are read through a record
  \<open>env\<close> of parameters; the sink and the file's own globals (\<open>initDone\<close>,
  \<open>sslCiphers\<close>, \<open>MutexVector\<close>) are the state \<open>glob\<close> that every
  operation takes and returns.
\<close>

subsection \<open>Data\<close>

text \<open>
  One call of the sink, \<open>msgCB(tid, msg, flag)\<close>. The declaration of the sink is
  in XrdTls.hh; the specification names its three arguments component, message and
  isError.
\<close>

record diag =
  component :: string
  message :: string
  isError :: bool

datatype kind = Regular | Directory | Other

text \<open>What \<open>stat\<close> reports of a path: the kind of the entry and its mode bits.\<close>

record inode =
  st_kind :: kind
  st_mode :: "32 word"

text \<open>The reasons for which a path is rejected.\<close>

datatype val_fail = Not_Exist | Not_Directory | Not_File | Excess_Rights

datatype ssl_method = TLS_any | SSLv23_any

datatype ssl_op = SSL_OP_ALL | SSL_OP_NO_SSLv2 | SSL_OP_NO_SSLv3 | SSL_OP_NO_COMPRESSION

datatype ssl_mode = SSL_MODE_AUTO_RETRY

datatype verify_mode = SSL_VERIFY_NONE | SSL_VERIFY_PEER

text \<open>The only callback the constructor ever installs is \<open>VerCB\<close>.\<close>

datatype verify_cb = VerCB_installed

datatype lib_call =
    SSL_library_init
  | OpenSSL_add_all_algorithms
  | SSL_load_error_strings
  | OpenSSL_add_all_ciphers
  | ERR_load_BIO_strings
  | ERR_load_crypto_strings

text \<open>
  A name is the list of its entries (\<open>CN=peer\<close>), a certificate holds the two
  names the callback reads, and the store context handed to the callback holds the
  current certificate, which may be null, and the depth and code of the error.
\<close>

type_synonym X509_NAME = "string list"

record X509 =
  subject_name :: X509_NAME
  issuer_name :: X509_NAME

record X509_STORE_CTX =
  current_cert :: "X509 option"
  error_depth :: int
  error :: int

text \<open>The end of the process on a null pointer.\<close>

datatype fault = Null_dereference

text \<open>
  The parameters. \<open>OPENSSL_VERSION_NUMBER\<close>, \<open>OPENSSL_THREADS\<close>, \<open>HAVE_TLS\<close>
  and \<open>SSL_CTRL_SET_ECDH_AUTO\<close> are the preprocessor symbols the file tests;
  \<open>servr\<close>, \<open>logVF\<close>, \<open>vdept\<close> and \<open>vdepS\<close> are the option constants of
  XrdTlsContext.hh; the remaining fields are the answers of the process and of
  OpenSSL (an \<open>int\<close> result where the code tests one).
\<close>

record env =
  OPENSSL_VERSION_NUMBER :: nat
  OPENSSL_THREADS :: bool
  HAVE_TLS :: bool
  SSL_CTRL_SET_ECDH_AUTO :: bool
  servr :: "32 word"
  logVF :: "32 word"
  vdept :: "32 word"
  vdepS :: nat
  getenv :: "string \<Rightarrow> string option"
  files :: "string \<Rightarrow> inode option"
  ValPath_text :: "val_fail \<Rightarrow> string"
  Emsg_flag :: bool
  Parm_opts_init :: "32 word"
  CRYPTO_num_locks :: int
  X509_verify_cert_error_string :: "int \<Rightarrow> string"
  X509_NAME_oneline :: "X509_NAME \<Rightarrow> nat \<Rightarrow> string"
  TLS_method :: "ssl_method option"
  SSLv23_method :: "ssl_method option"
  SSL_CTX_new :: "ssl_method \<Rightarrow> bool"
  SSL_CTX_load_verify_locations :: "string option \<Rightarrow> string option \<Rightarrow> int"
  SSL_CTX_set_cipher_list :: "string \<Rightarrow> int"
  SSL_CTX_use_certificate_file :: "string \<Rightarrow> int"
  SSL_CTX_use_PrivateKey_file :: "string \<Rightarrow> int"
  SSL_CTX_check_private_key :: "string \<Rightarrow> string \<Rightarrow> int"

text \<open>The native context \<open>SSL_CTX\<close>, as far as the constructor configures it.\<close>

record SSL_CTX =
  ssl_meth :: ssl_method
  options :: "ssl_op set"
  modes :: "ssl_mode set"
  ca_file :: "string option"
  ca_dir :: "string option"
  verify_depth :: "int option"
  verify :: "verify_mode option"
  verify_callback :: "verify_cb option"
  cipher_list :: "string option"
  ecdh_auto :: bool
  certificate_file :: "string option"
  PrivateKey_file :: "string option"

record CTX_Params =
  cert :: string
  pkey :: string
  cadir :: string
  cafile :: string
  opts :: "32 word"

record XrdTlsContextImpl =
  ctx :: "SSL_CTX option"
  Parm :: CTX_Params

text \<open>
  The globals of the file and the sink: \<open>sink\<close> lists what \<open>msgCB\<close> has received,
  \<open>lib_calls\<close> the library set-up calls made so far, \<open>MutexVector\<close> the length of the
  mutex array once it is allocated.
\<close>

record glob =
  initDone :: bool
  sslCiphers :: string
  lib_calls :: "lib_call list"
  MutexVector :: "nat option"
  locking_callback :: bool
  id_callback :: bool
  sink :: "diag list"

subsection \<open>The sink\<close>

definition msgCB :: "string \<Rightarrow> string \<Rightarrow> bool \<Rightarrow> glob \<Rightarrow> glob" where
  "msgCB tid txt flag g =
     g\<lparr>sink := sink g @ [\<lparr>component = tid, message = txt, isError = flag\<rparr>]\<rparr>"

text \<open>
  Modelled from the spec: \<open>XrdTls::Emsg\<close> is declared in XrdTls.hh and defined in a
  file that is not part of the sources at hand. The specification says that every
  error is reported once via the diagnostic sink under the tag the caller gives;
  the flag it passes is not stated and is the parameter \<open>Emsg_flag\<close>.
\<close>

definition Emsg :: "env \<Rightarrow> string \<Rightarrow> string \<Rightarrow> glob \<Rightarrow> glob" where
  "Emsg e tid txt g = msgCB tid txt (Emsg_flag e) g"

subsection \<open>Path validation\<close>

definition S_IRUSR :: "32 word" where "S_IRUSR = 256"
definition S_IWUSR :: "32 word" where "S_IWUSR = 128"
definition S_IRWXU :: "32 word" where "S_IRWXU = 448"
definition S_IRGRP :: "32 word" where "S_IRGRP = 32"
definition S_IXGRP :: "32 word" where "S_IXGRP = 8"
definition S_IRWXG :: "32 word" where "S_IRWXG = 56"
definition S_IROTH :: "32 word" where "S_IROTH = 4"
definition S_IXOTH :: "32 word" where "S_IXOTH = 1"
definition S_IRWXO :: "32 word" where "S_IRWXO = 7"

text \<open>
  \<open>stat\<close> on the process's file system. An empty pathname names no entry (POSIX:
  \<open>stat\<close> fails with \<open>ENOENT\<close> on it), whatever \<open>files\<close> holds.
\<close>

definition stat :: "env \<Rightarrow> string \<Rightarrow> inode option" where
  "stat e path = (if path = [] then None else files e path)"

text \<open>
  Modelled from the spec: \<open>XrdOucUtils::ValPath\<close> is defined in XrdOuc/XrdOucUtils.cc,
  which is not part of the sources at hand. By the specification an entry fails if it
  does not exist, is of the wrong kind, or grants any permission beyond its mask;
  the result is the reason as text, or nothing when the entry passes. The wording of
  the reasons is not stated and is the parameter \<open>ValPath_text\<close>.
\<close>

definition ValPath :: "env \<Rightarrow> string \<Rightarrow> 32 word \<Rightarrow> bool \<Rightarrow> string option" where
  "ValPath e path allow isdir =
     (case stat e path of
        None \<Rightarrow> Some (ValPath_text e Not_Exist)
      | Some buf \<Rightarrow>
          if isdir \<and> st_kind buf \<noteq> Directory then Some (ValPath_text e Not_Directory)
          else if \<not> isdir \<and> st_kind buf \<noteq> Regular then Some (ValPath_text e Not_File)
          else if (st_mode buf AND (S_IRWXU OR S_IRWXG OR S_IRWXO)) AND NOT allow \<noteq> 0
            then Some (ValPath_text e Excess_Rights)
          else None)"

definition cert_mode :: "32 word" where
  "cert_mode = S_IRUSR OR S_IWUSR OR S_IRWXG OR S_IROTH"

definition pkey_mode :: "32 word" where
  "pkey_mode = S_IRUSR OR S_IWUSR"

definition cadr_mode :: "32 word" where
  "cadr_mode = S_IRWXU OR S_IRGRP OR S_IXGRP OR S_IROTH OR S_IXOTH"

definition cafl_mode :: "32 word" where
  "cafl_mode = S_IRUSR OR S_IWUSR OR S_IRWXG OR S_IROTH"

text \<open>
  \<open>VerPaths\<close>: \<open>Inl eMsg\<close> is the result \<open>false\<close> with the message left in \<open>eMsg\<close>,
  \<open>Inr ()\<close> the result \<open>true\<close>. An absent argument is a null pointer.
\<close>

definition VerPaths ::
  "env \<Rightarrow> string option \<Rightarrow> string option \<Rightarrow> string option \<Rightarrow> string option \<Rightarrow> string + unit"
where
  "VerPaths e crt pky cadr cafl =
     (if cadr \<noteq> None \<and> ValPath e (the cadr) cadr_mode True \<noteq> None
        then Inl (''Unable to use CA cert directory '' @ the cadr @ ''; ''
                    @ the (ValPath e (the cadr) cadr_mode True))
      else if cafl \<noteq> None \<and> ValPath e (the cafl) cafl_mode False \<noteq> None
        then Inl (''Unable to use CA cert file '' @ the cafl @ ''; ''
                    @ the (ValPath e (the cafl) cafl_mode False))
      else if pky \<noteq> None \<and> ValPath e (the pky) pkey_mode False \<noteq> None
        then Inl (''Unable to use key file '' @ the pky @ ''; ''
                    @ the (ValPath e (the pky) pkey_mode False))
      else if crt \<noteq> None
        then (let cmode = (if pky \<noteq> None then cert_mode else pkey_mode) in
              if ValPath e (the crt) cmode False \<noteq> None
                then Inl ((if pky \<noteq> None then ''Unable to use cert file ''
                           else ''Unable to use cert+key file '')
                          @ the crt @ ''; '' @ the (ValPath e (the crt) cmode False))
              else Inr ())
      else Inr ())"

subsection \<open>One-time initialisation\<close>

text \<open>
  The callbacks are compiled in when \<open>OPENSSL_VERSION_NUMBER < 0x10100000L\<close> and
  \<open>OPENSSL_THREADS\<close> is defined.
\<close>

definition XRDTLS_SET_CALLBACKS :: "env \<Rightarrow> bool" where
  "XRDTLS_SET_CALLBACKS e = (OPENSSL_VERSION_NUMBER e < 0x10100000 \<and> OPENSSL_THREADS e)"

definition library_init :: "lib_call list" where
  "library_init =
     [SSL_library_init, OpenSSL_add_all_algorithms, SSL_load_error_strings,
      OpenSSL_add_all_ciphers, ERR_load_BIO_strings, ERR_load_crypto_strings]"

text \<open>
  \<open>InitTLS\<close> holds \<open>ctxMutex\<close> from entry to return, so a call is one step on the
  globals.
\<close>

definition InitTLS :: "env \<Rightarrow> glob \<Rightarrow> glob" where
  "InitTLS e g =
     (if initDone g then g
      else
        (let g1 = g\<lparr>initDone := True\<rparr>;
             g2 = g1\<lparr>lib_calls := lib_calls g1 @ library_init\<rparr>
         in if XRDTLS_SET_CALLBACKS e
            then (let n = CRYPTO_num_locks e;
                      g3 = (if n > 0
                            then g2\<lparr>MutexVector := Some (nat n), locking_callback := True\<rparr>
                            else g2)
                  in g3\<lparr>id_callback := True\<rparr>)
            else g2))"

definition Init :: "env \<Rightarrow> glob \<Rightarrow> string option \<times> glob" where
  "Init e g =
     (if \<not> OPENSSL_THREADS e
        then (Some ''Installed OpenSSL lacks the required thread support!'', g)
      else (None, InitTLS e g))"

definition default_sslCiphers :: "env \<Rightarrow> string" where
  "default_sslCiphers e =
     (if OPENSSL_VERSION_NUMBER e \<ge> 0x10002000
      then ''ECDHE-ECDSA-AES128-GCM-SHA256:''
         @ ''ECDHE-RSA-AES128-GCM-SHA256:''
         @ ''ECDHE-ECDSA-AES256-GCM-SHA384:''
         @ ''ECDHE-RSA-AES256-GCM-SHA384:''
         @ ''ECDHE-ECDSA-CHACHA20-POLY1305:''
         @ ''ECDHE-RSA-CHACHA20-POLY1305:''
         @ ''DHE-RSA-AES128-GCM-SHA256:''
         @ ''DHE-RSA-AES256-GCM-SHA384''
      else ''ALL:!LOW:!EXP:!MD5:!MD2'')"

text \<open>The globals when the process starts.\<close>

definition start :: "env \<Rightarrow> glob" where
  "start e =
     \<lparr>initDone = False, sslCiphers = default_sslCiphers e, lib_calls = [],
      MutexVector = None, locking_callback = False, id_callback = False, sink = []\<rparr>"

subsection \<open>Method selection\<close>

definition GetTlsMethod :: "env \<Rightarrow> string option \<times> ssl_method option" where
  "GetTlsMethod e =
     (let meth = (if HAVE_TLS e then TLS_method e else SSLv23_method e)
      in if meth = None then (Some ''No negotiable TLS method available.'', meth)
         else (None, meth))"

subsection \<open>The verification callback\<close>

fun dec_nat :: "nat \<Rightarrow> string" where
  "dec_nat n =
     (if n < 10 then [char_of (48 + n)]
      else dec_nat (n div 10) @ [char_of (48 + n mod 10)])"

declare dec_nat.simps [simp del]

text \<open>The conversion \<open>%d\<close>.\<close>

definition fmt_d :: "int \<Rightarrow> string" where
  "fmt_d i = (if i < 0 then CHR ''-'' # dec_nat (nat (- i)) else dec_nat (nat i))"

text \<open>
  \<open>snprintf\<close> into a buffer of \<open>sz\<close> bytes keeps at most \<open>sz - 1\<close> characters of
  the formatted text.
\<close>

definition snprintf :: "nat \<Rightarrow> string \<Rightarrow> string" where
  "snprintf sz txt = take (sz - 1) txt"

text \<open>
  \<open>VerCB\<close>. What \<open>X509_NAME_oneline\<close> leaves in a buffer of the given size is the
  library's answer (a parameter). The callback reads the names through the current
  certificate without testing the pointer: on a store context without one the process
  ends at \<open>X509_get_subject_name\<close>, before anything reaches the sink; that is
  \<open>Inl Null_dereference\<close>. \<open>Inr\<close> is a return, with the value returned and the
  globals.
\<close>

definition VerCB :: "env \<Rightarrow> int \<Rightarrow> X509_STORE_CTX \<Rightarrow> glob \<Rightarrow> fault + int \<times> glob" where
  "VerCB e aOK x509P g =
     (if aOK = 0
      then
        (case current_cert x509P of
           None \<Rightarrow> Inl Null_dereference
         | Some crt \<Rightarrow>
             (let depth = error_depth x509P;
                  err = error x509P;
                  name1 = X509_NAME_oneline e (subject_name crt) 512;
                  info1 = snprintf 1024 (''Cert verification failed for DN='' @ name1);
                  g1 = msgCB ''Cert'' info1 False g;
                  name2 = X509_NAME_oneline e (issuer_name crt) 512;
                  info2 = snprintf 1024 (''Failing cert issuer='' @ name2);
                  g2 = msgCB ''Cert'' info2 False g1;
                  info3 = snprintf 1024 (''Error '' @ fmt_d err @ '' at depth '' @ fmt_d depth
                                         @ '' ['' @ X509_verify_cert_error_string e err @ '']'');
                  g3 = msgCB ''Cert'' info3 False g2
              in Inr (aOK, g3)))
      else Inr (aOK, g))"

subsection \<open>The constructor\<close>

definition sslOpts :: "ssl_op set" where
  "sslOpts = {SSL_OP_ALL, SSL_OP_NO_SSLv2, SSL_OP_NO_SSLv3, SSL_OP_NO_COMPRESSION}"

definition sslMode :: "ssl_mode set" where
  "sslMode = {SSL_MODE_AUTO_RETRY}"

text \<open>What \<open>SSL_CTX_new\<close> hands out: nothing configured yet.\<close>

definition fresh_SSL_CTX :: "ssl_method \<Rightarrow> SSL_CTX" where
  "fresh_SSL_CTX meth =
     \<lparr>ssl_meth = meth, options = {}, modes = {}, ca_file = None, ca_dir = None,
      verify_depth = None, verify = None, verify_callback = None, cipher_list = None,
      ecdh_auto = False, certificate_file = None, PrivateKey_file = None\<rparr>"

text \<open>
  \<open>new XrdTlsContextImpl()\<close>: no native context, the strings of \<open>Parm\<close> empty. The
  initial \<open>opts\<close> is set by the header's declaration of \<open>CTX_Params\<close> and is a
  parameter.
\<close>

definition new_Impl :: "env \<Rightarrow> XrdTlsContextImpl" where
  "new_Impl e =
     \<lparr>ctx = None,
      Parm = \<lparr>cert = [], pkey = [], cadir = [], cafile = [], opts = Parm_opts_init e\<rparr>\<rparr>"

text \<open>
  The block that reads the environment (client contexts only). \<open>None\<close> is the exit
  taken when no CA location is known; otherwise the four paths as the rest of the
  constructor uses them, in the order \<open>(cert, key, caDir, caFile)\<close>.
\<close>

definition defaulting ::
  "env \<Rightarrow> string option \<Rightarrow> string option \<Rightarrow> string option \<Rightarrow> string option \<Rightarrow> 32 word
     \<Rightarrow> (string option \<times> string option \<times> string option \<times> string option) option"
where
  "defaulting e crt key caDir caFile ops =
     (if ops AND servr e = 0
      then
        (let crt1 = (if crt = None then getenv e ''X509_USER_PROXY'' else crt);
             key1 = (if key = None then getenv e ''X509_USER_KEY'' else key)
         in if caDir = None \<and> caFile = None
            then
              (let caDir1 = getenv e ''X509_CERT_DIR'';
                   caFile1 = getenv e ''X509_CERT_FILE''
               in if caDir1 = None \<and> caFile1 = None then None
                  else Some (crt1, key1, caDir1, caFile1))
            else Some (crt1, key1, caDir, caFile))
      else Some (crt, key, caDir, caFile))"

text \<open>
  The block that sets the verification policy on the native context. \<open>None\<close> is the
  exit taken when the CA locations cannot be loaded.
\<close>

definition set_verify ::
  "env \<Rightarrow> 32 word \<Rightarrow> string option \<Rightarrow> string option \<Rightarrow> SSL_CTX \<Rightarrow> SSL_CTX option"
where
  "set_verify e ops caDir caFile c =
     (if caDir \<noteq> None \<or> caFile \<noteq> None
      then
        (if SSL_CTX_load_verify_locations e caFile caDir = 0 then None
         else
           (let c1 = c\<lparr>ca_file := caFile, ca_dir := caDir\<rparr>;
                vDepth = sint (signed_drop_bit (vdepS e) (ops AND vdept e));
                c2 = c1\<lparr>verify_depth := Some (if vDepth \<noteq> 0 then vDepth else 9)\<rparr>;
                LogVF = (ops AND logVF e \<noteq> 0)
            in Some (c2\<lparr>verify := Some SSL_VERIFY_PEER,
                         verify_callback := (if LogVF then Some VerCB_installed else None)\<rparr>)))
      else Some (c\<lparr>verify := Some SSL_VERIFY_NONE, verify_callback := None\<rparr>))"

text \<open>The block that copies the parameters into \<open>pImpl->Parm\<close>.\<close>

definition copy_params ::
  "string option \<Rightarrow> string option \<Rightarrow> string option \<Rightarrow> string option \<Rightarrow> 32 word
     \<Rightarrow> CTX_Params \<Rightarrow> CTX_Params"
where
  "copy_params crt key caDir caFile ops P0 =
     (let P1 = (case crt of Some s \<Rightarrow> P0\<lparr>cert := s\<rparr> | None \<Rightarrow> P0);
          P2 = (case key of Some s \<Rightarrow> P1\<lparr>pkey := s\<rparr> | None \<Rightarrow> P1);
          P3 = (case caDir of Some s \<Rightarrow> P2\<lparr>cadir := s\<rparr> | None \<Rightarrow> P2);
          P4 = (case caFile of Some s \<Rightarrow> P3\<lparr>cafile := s\<rparr> | None \<Rightarrow> P3)
      in P4\<lparr>opts := ops\<rparr>)"

text \<open>
  The constructor, from the copy of the parameters on: \<open>pImpl\<close> comes in with
  \<open>ctx = 0\<close>. Every exit but the two that call \<open>ctx_tracker.Keep()\<close> leaves
  \<open>pImpl->ctx\<close> null, the native context (if any) freed by the tracker.
\<close>

definition configure ::
  "env \<Rightarrow> string option \<Rightarrow> string option \<Rightarrow> string option \<Rightarrow> string option \<Rightarrow> 32 word
     \<Rightarrow> XrdTlsContextImpl \<Rightarrow> glob \<Rightarrow> XrdTlsContextImpl \<times> glob"
where
  "configure e crt key caDir caFile ops pImpl g =
     (let p = pImpl\<lparr>Parm := copy_params crt key caDir caFile ops (Parm pImpl)\<rparr>;
          (emsg, meth) = GetTlsMethod e
      in if emsg \<noteq> None then (p, msgCB ''TLS_Context'' (the emsg) False g)
         else if \<not> SSL_CTX_new e (the meth)
           then (p, Emsg e ''TLS_Context'' ''Unable to allocate TLS context!'' g)
         else
           (let c0 = fresh_SSL_CTX (the meth);
                c1 = c0\<lparr>options := options c0 \<union> sslOpts\<rparr>;
                c2 = c1\<lparr>modes := modes c1 \<union> sslMode\<rparr>
            in case set_verify e ops caDir caFile c2 of
                 None \<Rightarrow>
                   (p, Emsg e ''TLS_Context'' ''Unable to set the CA cert file or directory.'' g)
               | Some c3 \<Rightarrow>
                   if SSL_CTX_set_cipher_list e (sslCiphers g) = 0
                     then (p, Emsg e ''TLS_Context'' ''Unable to set SSL cipher list.'' g)
                   else
                     (let c4 = c3\<lparr>cipher_list := Some (sslCiphers g)\<rparr>;
                          c5 = (if SSL_CTRL_SET_ECDH_AUTO e then c4\<lparr>ecdh_auto := True\<rparr> else c4)
                      in case crt of
                           None \<Rightarrow> (p\<lparr>ctx := Some c5\<rparr>, g)
                         | Some certf \<Rightarrow>
                             (let keyf = (case key of None \<Rightarrow> certf | Some k \<Rightarrow> k)
                              in if SSL_CTX_use_certificate_file e certf \<noteq> 1
                                   then (p, Emsg e ''LS_Context''
                                           ''Unable to create TLS context; certificate error.'' g)
                                 else if SSL_CTX_use_PrivateKey_file e keyf \<noteq> 1
                                   then (p, Emsg e ''TLS_Context''
                                           ''Unable to create TLS context; private key error.'' g)
                                 else if SSL_CTX_check_private_key e certf keyf \<noteq> 1
                                   then (p, Emsg e ''TLS_Context''
                                           ''Unable to create TLS context; cert-key mismatch.'' g)
                                 else (p\<lparr>ctx := Some (c5\<lparr>certificate_file := Some certf,
                                                          PrivateKey_file := Some keyf\<rparr>)\<rparr>, g)))))"

text \<open>
  \<open>XrdTlsContext::XrdTlsContext(cert, key, caDir, caFile, opts)\<close>. The object is its
  \<open>pImpl\<close>; the result is the object built and the globals after the call.
\<close>

definition XrdTlsContext ::
  "env \<Rightarrow> string option \<Rightarrow> string option \<Rightarrow> string option \<Rightarrow> string option \<Rightarrow> 32 word
     \<Rightarrow> glob \<Rightarrow> XrdTlsContextImpl \<times> glob"
where
  "XrdTlsContext e crt key caDir caFile ops g =
     (let pImpl = new_Impl e;
          done = initDone g;
          (emsg, g1) = (if \<not> done then Init e g else (None, g))
      in if emsg \<noteq> None then (pImpl, msgCB ''TLS_Context'' (the emsg) False g1)
         else
           (case defaulting e crt key caDir caFile ops of
              None \<Rightarrow>
                (pImpl, msgCB ''Tls_Context''
                   ''Unable to determine the location of trusted CA certificates to verify peer identify; this is required!''
                   False g1)
            | Some (crt1, key1, caDir1, caFile1) \<Rightarrow>
                (case VerPaths e crt1 key1 caDir1 caFile1 of
                   Inl eText \<Rightarrow> (pImpl, msgCB ''TLS_Context'' eText False g1)
                 | Inr _ \<Rightarrow> configure e crt1 key1 caDir1 caFile1 ops pImpl g1)))"

subsection \<open>The other operations\<close>

definition Context :: "XrdTlsContextImpl \<Rightarrow> SSL_CTX option" where
  "Context pImpl = ctx pImpl"

definition GetParams :: "XrdTlsContextImpl \<Rightarrow> CTX_Params" where
  "GetParams pImpl = Parm pImpl"

definition x509Verify :: "XrdTlsContextImpl \<Rightarrow> bool" where
  "x509Verify pImpl = (cadir (Parm pImpl) \<noteq> [] \<or> cafile (Parm pImpl) \<noteq> [])"

text \<open>
  \<open>SetCiphers\<close> stores the caller's pointer in \<open>sslCiphers\<close>; the model stores the
  characters it points to at the call, so a later change of the caller's buffer is not
  followed.
\<close>

definition SetCiphers :: "string \<Rightarrow> glob \<Rightarrow> glob" where
  "SetCiphers ciphers g = g\<lparr>sslCiphers := ciphers\<rparr>"

text \<open>\<open>Clone\<close>: \<open>None\<close> is the null pointer returned after \<open>delete xtc\<close>.\<close>

definition Clone :: "env \<Rightarrow> XrdTlsContextImpl \<Rightarrow> glob \<Rightarrow> XrdTlsContextImpl option \<times> glob" where
  "Clone e pImpl g =
     (let my = Parm pImpl;
          crt = (if cert my \<noteq> [] then Some (cert my) else None);
          pky = (if pkey my \<noteq> [] then Some (pkey my) else None);
          caD = (if cadir my \<noteq> [] then Some (cadir my) else None);
          caF = (if cafile my \<noteq> [] then Some (cafile my) else None);
          (xtc, g1) = XrdTlsContext e crt pky caD caF (opts my) g
      in if Context xtc \<noteq> None then (Some xtc, g1) else (None, g1))"

section \<open>Concrete settings\<close>

text \<open>
  A process on a current OpenSSL with the option constants \<open>servr = 0x20000000\<close>,
  \<open>logVF = 0x40000000\<close>, \<open>vdept = 0xff00\<close>, \<open>vdepS = 8\<close>, an empty environment, and
  the files of the specification's scenarios: \<open>/tmp/c.pem\<close> (mode 0644),
  \<open>/tmp/k.pem\<close> (0600), \<open>/tmp/k640.pem\<close> (0640), \<open>/tmp/bundle.pem\<close> (0600) and the
  directory \<open>/etc/ca\<close> (0755). The library accepts whatever it is given, and
  writes a name entry by entry, each after a \<open>/\<close>, stopping before the first entry
  that no longer fits.
\<close>

fun oneline_upto :: "nat \<Rightarrow> X509_NAME \<Rightarrow> string" where
  "oneline_upto room [] = []"
| "oneline_upto room (entry # entries) =
     (if 1 + length entry \<le> room
      then CHR ''/'' # entry @ oneline_upto (room - (1 + length entry)) entries
      else [])"

definition scenario_files :: "string \<Rightarrow> inode option" where
  "scenario_files path =
     (if path = ''/tmp/c.pem'' then Some \<lparr>st_kind = Regular, st_mode = 420\<rparr>
      else if path = ''/tmp/k.pem'' then Some \<lparr>st_kind = Regular, st_mode = 384\<rparr>
      else if path = ''/tmp/k640.pem'' then Some \<lparr>st_kind = Regular, st_mode = 416\<rparr>
      else if path = ''/tmp/bundle.pem'' then Some \<lparr>st_kind = Regular, st_mode = 384\<rparr>
      else if path = ''/etc/ca'' then Some \<lparr>st_kind = Directory, st_mode = 493\<rparr>
      else None)"

definition scenario_text :: "val_fail \<Rightarrow> string" where
  "scenario_text f =
     (case f of Not_Exist \<Rightarrow> ''does not exist.''
      | Not_Directory \<Rightarrow> ''is not a directory.''
      | Not_File \<Rightarrow> ''is not a file.''
      | Excess_Rights \<Rightarrow> ''has excessive access rights.'')"

definition scenario :: env where
  "scenario =
     \<lparr>OPENSSL_VERSION_NUMBER = 0x1010100f, OPENSSL_THREADS = True, HAVE_TLS = True,
      SSL_CTRL_SET_ECDH_AUTO = False,
      servr = 0x20000000, logVF = 0x40000000, vdept = 0xff00, vdepS = 8,
      getenv = (\<lambda>_. None), files = scenario_files, ValPath_text = scenario_text,
      Emsg_flag = False, Parm_opts_init = 0,
      CRYPTO_num_locks = 41,
      X509_verify_cert_error_string = (\<lambda>_. ''certificate has expired''),
      X509_NAME_oneline = (\<lambda>a sz. oneline_upto (sz - 1) a),
      TLS_method = Some TLS_any, SSLv23_method = Some SSLv23_any,
      SSL_CTX_new = (\<lambda>_. True),
      SSL_CTX_load_verify_locations = (\<lambda>_ _. 1),
      SSL_CTX_set_cipher_list = (\<lambda>_. 1),
      SSL_CTX_use_certificate_file = (\<lambda>_. 1),
      SSL_CTX_use_PrivateKey_file = (\<lambda>_. 1),
      SSL_CTX_check_private_key = (\<lambda>_ _. 1)\<rparr>"

text \<open>
  A store context as the library hands it to the callback for an expired peer
  certificate, and one for an error to which no certificate belongs; a library that
  rejects every certificate file; and a library old enough to need the locking
  callbacks.
\<close>

definition peer_cert :: X509 where
  "peer_cert = \<lparr>subject_name = [''CN=peer''], issuer_name = [''CN=ca'']\<rparr>"

definition expired :: X509_STORE_CTX where
  "expired = \<lparr>current_cert = Some peer_cert, error_depth = 0, error = 10\<rparr>"

definition no_certificate :: X509_STORE_CTX where
  "no_certificate = \<lparr>current_cert = None, error_depth = 0, error = 10\<rparr>"

definition bad_certificate :: env where
  "bad_certificate = scenario\<lparr>SSL_CTX_use_certificate_file := (\<lambda>_. 0)\<rparr>"

definition legacy :: env where
  "legacy = scenario\<lparr>OPENSSL_VERSION_NUMBER := 0x1000200f\<rparr>"

text \<open>
  A library without a negotiable method, and a client whose environment names a CA
  directory and a proxy certificate.
\<close>

definition no_method :: env where
  "no_method = scenario\<lparr>TLS_method := None\<rparr>"

definition proxy_client :: env where
  "proxy_client =
     scenario\<lparr>getenv := (\<lambda>name. if name = ''X509_CERT_DIR'' then Some ''/etc/ca''
                                 else if name = ''X509_USER_PROXY'' then Some ''/tmp/bundle.pem''
                                 else None)\<rparr>"

section \<open>The path validator against its table\<close>

text \<open>
  The table of the specification, written as data: one entry for each argument that is
  present, in the order CA directory, CA file, private key, certificate. An entry is
  the text naming the role, the path, the most the mode may grant, and whether the
  entry must be a directory.
\<close>

datatype who = Owner | Group | Others

datatype perm = Rd | Wr | Ex

fun perm_bit :: "who \<times> perm \<Rightarrow> 32 word" where
  "perm_bit (Owner, Rd) = 256"
| "perm_bit (Owner, Wr) = 128"
| "perm_bit (Owner, Ex) = 64"
| "perm_bit (Group, Rd) = 32"
| "perm_bit (Group, Wr) = 16"
| "perm_bit (Group, Ex) = 8"
| "perm_bit (Others, Rd) = 4"
| "perm_bit (Others, Wr) = 2"
| "perm_bit (Others, Ex) = 1"

definition grants :: "(who \<times> perm) list \<Rightarrow> 32 word" where
  "grants ps = foldr (\<lambda>p m. perm_bit p OR m) ps 0"

definition owner_rw :: "32 word" where
  "owner_rw = grants [(Owner, Rd), (Owner, Wr)]"

definition owner_rw_group_rwx_other_r :: "32 word" where
  "owner_rw_group_rwx_other_r =
     grants [(Owner, Rd), (Owner, Wr), (Group, Rd), (Group, Wr), (Group, Ex), (Others, Rd)]"

definition owner_rwx_group_rx_other_rx :: "32 word" where
  "owner_rwx_group_rx_other_rx =
     grants [(Owner, Rd), (Owner, Wr), (Owner, Ex), (Group, Rd), (Group, Ex),
             (Others, Rd), (Others, Ex)]"

type_synonym entry = "string \<times> string \<times> 32 word \<times> bool"

definition path_entries ::
  "string option \<Rightarrow> string option \<Rightarrow> string option \<Rightarrow> string option \<Rightarrow> entry list"
where
  "path_entries crt pky cadr cafl =
     (case cadr of None \<Rightarrow> []
      | Some p \<Rightarrow> [(''Unable to use CA cert directory '', p, owner_rwx_group_rx_other_rx, True)])
     @ (case cafl of None \<Rightarrow> []
        | Some p \<Rightarrow> [(''Unable to use CA cert file '', p, owner_rw_group_rwx_other_r, False)])
     @ (case pky of None \<Rightarrow> []
        | Some p \<Rightarrow> [(''Unable to use key file '', p, owner_rw, False)])
     @ (case crt of None \<Rightarrow> []
        | Some p \<Rightarrow>
            (case pky of
               Some _ \<Rightarrow> [(''Unable to use cert file '', p, owner_rw_group_rwx_other_r, False)]
             | None \<Rightarrow> [(''Unable to use cert+key file '', p, owner_rw, False)]))"

fun first_failure :: "env \<Rightarrow> entry list \<Rightarrow> string + unit" where
  "first_failure e [] = Inr ()"
| "first_failure e ((role, path, allow, isdir) # es) =
     (case ValPath e path allow isdir of
        Some emsg \<Rightarrow> Inl (role @ path @ ''; '' @ emsg)
      | None \<Rightarrow> first_failure e es)"

section \<open>The builder against its steps\<close>

text \<open>
  The steps of the specification, written as predicates and values over the
  parameters, to compare the constructor with. \<open>effective_Parm\<close> is the Parameters
  record holding the paths the constructor used (an absent path is the empty string).
\<close>

definition effective_Parm ::
  "string option \<Rightarrow> string option \<Rightarrow> string option \<Rightarrow> string option \<Rightarrow> 32 word \<Rightarrow> CTX_Params"
where
  "effective_Parm crt key caDir caFile ops =
     \<lparr>cert = (case crt of None \<Rightarrow> [] | Some s \<Rightarrow> s),
      pkey = (case key of None \<Rightarrow> [] | Some s \<Rightarrow> s),
      cadir = (case caDir of None \<Rightarrow> [] | Some s \<Rightarrow> s),
      cafile = (case caFile of None \<Rightarrow> [] | Some s \<Rightarrow> s),
      opts = ops\<rparr>"

text \<open>
  Method selection: \<open>TLS_method\<close> where the build has it, \<open>SSLv23_method\<close>
  otherwise.
\<close>

definition selected_method :: "env \<Rightarrow> ssl_method option" where
  "selected_method e = (if HAVE_TLS e then TLS_method e else SSLv23_method e)"

text \<open>
  Credential loading: with a certificate, the certificate file loads, the key file
  (the certificate file again when no key path is given) loads, and the two match.
\<close>

definition credentials_pass :: "env \<Rightarrow> string option \<Rightarrow> string option \<Rightarrow> bool" where
  "credentials_pass e crt key =
     (case crt of
        None \<Rightarrow> True
      | Some certf \<Rightarrow>
          SSL_CTX_use_certificate_file e certf = 1
        \<and> SSL_CTX_use_PrivateKey_file e (case key of None \<Rightarrow> certf | Some k \<Rightarrow> k) = 1
        \<and> SSL_CTX_check_private_key e certf (case key of None \<Rightarrow> certf | Some k \<Rightarrow> k) = 1)"

text \<open>
  Everything after the copy of the parameters passes: a method is available, the
  native context is allocated, the CA locations (if any) load, the cipher list is
  accepted, the credentials pass.
\<close>

definition configuration_passes ::
  "env \<Rightarrow> string option \<Rightarrow> string option \<Rightarrow> string option \<Rightarrow> string option \<Rightarrow> string \<Rightarrow> bool"
where
  "configuration_passes e crt key caDir caFile ciphers =
     (case selected_method e of
        None \<Rightarrow> False
      | Some meth \<Rightarrow>
          SSL_CTX_new e meth
        \<and> ((caDir \<noteq> None \<or> caFile \<noteq> None) \<longrightarrow> SSL_CTX_load_verify_locations e caFile caDir \<noteq> 0)
        \<and> SSL_CTX_set_cipher_list e ciphers \<noteq> 0
        \<and> credentials_pass e crt key)"

text \<open>
  The native context a build commits: the fixed options and mode, the verification
  policy, the cipher list, and the credentials.
\<close>

definition committed_ctx ::
  "env \<Rightarrow> ssl_method \<Rightarrow> string option \<Rightarrow> string option \<Rightarrow> string option \<Rightarrow> string option
     \<Rightarrow> 32 word \<Rightarrow> string \<Rightarrow> SSL_CTX"
where
  "committed_ctx e meth crt key caDir caFile ops ciphers =
     \<lparr>ssl_meth = meth, options = sslOpts, modes = sslMode,
      ca_file = (if caDir \<noteq> None \<or> caFile \<noteq> None then caFile else None),
      ca_dir = (if caDir \<noteq> None \<or> caFile \<noteq> None then caDir else None),
      verify_depth =
        (if caDir \<noteq> None \<or> caFile \<noteq> None
         then Some (if sint (signed_drop_bit (vdepS e) (ops AND vdept e)) \<noteq> 0
                    then sint (signed_drop_bit (vdepS e) (ops AND vdept e)) else 9)
         else None),
      verify = Some (if caDir \<noteq> None \<or> caFile \<noteq> None then SSL_VERIFY_PEER else SSL_VERIFY_NONE),
      verify_callback =
        (if (caDir \<noteq> None \<or> caFile \<noteq> None) \<and> ops AND logVF e \<noteq> 0
         then Some VerCB_installed else None),
      cipher_list = Some ciphers,
      ecdh_auto = SSL_CTRL_SET_ECDH_AUTO e,
      certificate_file = crt,
      PrivateKey_file = (case crt of None \<Rightarrow> None
                         | Some certf \<Rightarrow> Some (case key of None \<Rightarrow> certf | Some k \<Rightarrow> k))\<rparr>"

text \<open>
  The verification policy as an update of a native context.
\<close>

definition policy :: "env \<Rightarrow> 32 word \<Rightarrow> string option \<Rightarrow> string option \<Rightarrow> SSL_CTX \<Rightarrow> SSL_CTX" where
  "policy e ops caDir caFile c =
     (if caDir \<noteq> None \<or> caFile \<noteq> None
      then c\<lparr>ca_file := caFile, ca_dir := caDir,
             verify_depth := Some (if sint (signed_drop_bit (vdepS e) (ops AND vdept e)) \<noteq> 0
                                   then sint (signed_drop_bit (vdepS e) (ops AND vdept e))
                                   else 9),
             verify := Some SSL_VERIFY_PEER,
             verify_callback := (if ops AND logVF e \<noteq> 0 then Some VerCB_installed else None)\<rparr>
      else c\<lparr>verify := Some SSL_VERIFY_NONE, verify_callback := None\<rparr>)"

text \<open>
  From \<open>g\<close> to \<open>g'\<close> one diagnostic was handed to the sink and nothing else
  changed.
\<close>

definition reported_once :: "glob \<Rightarrow> glob \<Rightarrow> bool" where
  "reported_once g g' = (\<exists>d. g' = g\<lparr>sink := sink g @ [d]\<rparr>)"

text \<open>
  The two messages of the exits before path validation.
\<close>

definition thread_support_text :: string where
  "thread_support_text = ''Installed OpenSSL lacks the required thread support!''"

definition no_CA_text :: string where
  "no_CA_text = ''Unable to determine the location of trusted CA certificates to verify peer identify; this is required!''"

text \<open>
  Every step of a build passes: the initialisation (already done, or the library has
  thread support), the defaulting, the path validation, and everything after it.
\<close>

definition every_step_passes ::
  "env \<Rightarrow> string option \<Rightarrow> string option \<Rightarrow> string option \<Rightarrow> string option \<Rightarrow> 32 word
     \<Rightarrow> glob \<Rightarrow> bool"
where
  "every_step_passes e crt key caDir caFile ops g =
     ((initDone g \<or> OPENSSL_THREADS e)
      \<and> (case defaulting e crt key caDir caFile ops of
           None \<Rightarrow> False
         | Some (crt1, key1, caDir1, caFile1) \<Rightarrow>
             VerPaths e crt1 key1 caDir1 caFile1 = Inr ()
           \<and> configuration_passes e crt1 key1 caDir1 caFile1 (sslCiphers g)))"

text \<open>
  The globals once the constructor is past its initialisation test: \<open>InitTLS\<close> has
  run unless the library lacks thread support.
\<close>

definition after_gate :: "env \<Rightarrow> glob \<Rightarrow> glob" where
  "after_gate e g = (if OPENSSL_THREADS e then InitTLS e g else g)"

text \<open>
  The defaulting step in the words of the specification: with the server bit set the
  paths are used as given; otherwise an unsupplied certificate comes from
  \<open>X509_USER_PROXY\<close>, an unsupplied key from \<open>X509_USER_KEY\<close>, and, when neither
  CA path is supplied, both come from \<open>X509_CERT_DIR\<close> and \<open>X509_CERT_FILE\<close>. The
  result is in the order \<open>(cert, key, caDir, caFile)\<close>.
\<close>

definition spec_defaults ::
  "env \<Rightarrow> string option \<Rightarrow> string option \<Rightarrow> string option \<Rightarrow> string option \<Rightarrow> 32 word
     \<Rightarrow> string option \<times> string option \<times> string option \<times> string option"
where
  "spec_defaults e crt key caDir caFile ops =
     (if ops AND servr e \<noteq> 0 then (crt, key, caDir, caFile)
      else
        ((case crt of None \<Rightarrow> getenv e ''X509_USER_PROXY'' | Some s \<Rightarrow> Some s),
         (case key of None \<Rightarrow> getenv e ''X509_USER_KEY'' | Some s \<Rightarrow> Some s),
         (if caDir = None \<and> caFile = None then getenv e ''X509_CERT_DIR'' else caDir),
         (if caDir = None \<and> caFile = None then getenv e ''X509_CERT_FILE'' else caFile)))"

text \<open>A client build for which no CA location is supplied or found in the environment.\<close>

definition no_CA_known ::
  "env \<Rightarrow> string option \<Rightarrow> string option \<Rightarrow> string option \<Rightarrow> string option \<Rightarrow> 32 word \<Rightarrow> bool"
where
  "no_CA_known e crt key caDir caFile ops =
     (ops AND servr e = 0 \<and> caDir = None \<and> caFile = None
      \<and> getenv e ''X509_CERT_DIR'' = None \<and> getenv e ''X509_CERT_FILE'' = None)"

text \<open>
  CA paths were copied into the Parameters: the build reached the copy (the
  initialisation test and the path validation passed) with a CA directory or a CA
  file among the paths it copied. Nothing is said of the steps after the copy.
\<close>

definition CA_paths_copied ::
  "env \<Rightarrow> string option \<Rightarrow> string option \<Rightarrow> string option \<Rightarrow> string option \<Rightarrow> 32 word
     \<Rightarrow> glob \<Rightarrow> bool"
where
  "CA_paths_copied e crt key caDir caFile ops g =
     ((initDone g \<or> OPENSSL_THREADS e)
      \<and> (case spec_defaults e crt key caDir caFile ops of
           (c, k, d, f) \<Rightarrow> (d \<noteq> None \<or> f \<noteq> None) \<and> VerPaths e c k d f = Inr ()))"

text \<open>
  Peer verification is enabled for an object: it holds a native context, and that
  context requires a peer certificate.
\<close>

definition peer_verification_enabled :: "XrdTlsContextImpl \<Rightarrow> bool" where
  "peer_verification_enabled pImpl =
     (case Context pImpl of None \<Rightarrow> False | Some sc \<Rightarrow> verify sc = Some SSL_VERIFY_PEER)"

text \<open>
  The verification policy of the specification as a property of a native context:
  with a CA directory or file, those are its verify locations, its depth is the
  \<open>vdept\<close> subfield of \<open>opts\<close> when that is non-zero and 9 otherwise, its mode
  requires a peer certificate, and the callback is installed exactly when the
  \<open>logVF\<close> bit is set; with neither, the mode is none and there is no callback.
\<close>

definition verification_policy ::
  "env \<Rightarrow> 32 word \<Rightarrow> string option \<Rightarrow> string option \<Rightarrow> SSL_CTX \<Rightarrow> bool"
where
  "verification_policy e ops caDir caFile sc =
     ((caDir \<noteq> None \<or> caFile \<noteq> None \<longrightarrow>
         ca_dir sc = caDir \<and> ca_file sc = caFile
       \<and> verify_depth sc =
           Some (if sint (signed_drop_bit (vdepS e) (ops AND vdept e)) \<noteq> 0
                 then sint (signed_drop_bit (vdepS e) (ops AND vdept e)) else 9)
       \<and> verify sc = Some SSL_VERIFY_PEER
       \<and> verify_callback sc = (if ops AND logVF e \<noteq> 0 then Some VerCB_installed else None))
      \<and> (caDir = None \<and> caFile = None \<longrightarrow>
           verify sc = Some SSL_VERIFY_NONE \<and> verify_callback sc = None))"

text \<open>
  How \<open>Clone\<close> turns a stored path back into an argument: an empty string is the
  null pointer.
\<close>

definition replay :: "string \<Rightarrow> string option" where
  "replay s = (if s \<noteq> [] then Some s else None)"

section \<open>Lemmas\<close>

subsection \<open>Path validation\<close>

text \<open>
  The validator is the table of the specification read from the top; a path that passes is not empty.
\<close>

lemma masks:
  "cert_mode = owner_rw_group_rwx_other_r" "pkey_mode = owner_rw"
  "cadr_mode = owner_rwx_group_rx_other_rx" "cafl_mode = owner_rw_group_rwx_other_r"
  by (simp_all add: cert_mode_def pkey_mode_def cadr_mode_def cafl_mode_def owner_rw_def
       owner_rw_group_rwx_other_r_def owner_rwx_group_rx_other_rx_def grants_def
       S_IRUSR_def S_IWUSR_def S_IRWXU_def S_IRGRP_def S_IXGRP_def S_IRWXG_def S_IROTH_def S_IXOTH_def)

lemma first_failure_Inl:
  "first_failure e es = Inl m \<Longrightarrow>
   \<exists>pre role path allow isdir emsg post.
      es = pre @ (role, path, allow, isdir) # post
    \<and> (\<forall>(r, p, k, d) \<in> set pre. ValPath e p k d = None)
    \<and> ValPath e path allow isdir = Some emsg
    \<and> m = role @ path @ ''; '' @ emsg"
proof (induction es)
  case Nil
  then show ?case by simp
next
  case (Cons x es)
  obtain r p k d where x: "x = (r, p, k, d)" by (cases x) auto
  show ?case
  proof (cases "ValPath e p k d")
    case None
    with Cons.prems x have "first_failure e es = Inl m" by simp
    from Cons.IH [OF this] obtain pre role path allow isdir emsg post where
      h: "es = pre @ (role, path, allow, isdir) # post"
         "\<forall>(r, p, k, d) \<in> set pre. ValPath e p k d = None"
         "ValPath e path allow isdir = Some emsg" "m = role @ path @ ''; '' @ emsg"
      by blast
    have "x # es = (x # pre) @ (role, path, allow, isdir) # post" using h(1) by simp
    moreover have "\<forall>(r, p, k, d) \<in> set (x # pre). ValPath e p k d = None"
      using h(2) None x by simp
    ultimately show ?thesis using h(3,4) by blast
  next
    case (Some em)
    with Cons.prems x have "m = r @ p @ ''; '' @ em" by simp
    moreover have "x # es = [] @ (r, p, k, d) # es" using x by simp
    ultimately show ?thesis using Some by fastforce
  qed
qed

lemma first_failure_Inr:
  "first_failure e es = Inr () \<longleftrightarrow> (\<forall>(r, p, k, d) \<in> set es. ValPath e p k d = None)"
  by (induction es) (auto split: option.splits)

lemma VerPaths_table:
  "VerPaths e crt pky cadr cafl = first_failure e (path_entries crt pky cadr cafl)"
  by (cases cadr; cases cafl; cases pky; cases crt;
      simp add: VerPaths_def path_entries_def masks Let_def split: option.splits)

lemma ValPath_empty: "ValPath e [] allow isdir = Some (ValPath_text e Not_Exist)"
  by (simp add: ValPath_def stat_def)

lemma VerPaths_nonempty:
  assumes "VerPaths e crt pky cadr cafl = Inr ()"
  shows "crt \<noteq> Some [] \<and> pky \<noteq> Some [] \<and> cadr \<noteq> Some [] \<and> cafl \<noteq> Some []"
proof -
  from assms have a: "\<forall>(r, p, k, d) \<in> set (path_entries crt pky cadr cafl). ValPath e p k d = None"
    by (simp add: VerPaths_table first_failure_Inr)
  have "cadr \<noteq> Some []" using a by (auto simp: path_entries_def ValPath_empty)
  moreover have "cafl \<noteq> Some []" using a by (auto simp: path_entries_def ValPath_empty)
  moreover have "pky \<noteq> Some []" using a by (auto simp: path_entries_def ValPath_empty)
  moreover have "crt \<noteq> Some []" using a
    by (cases pky) (auto simp: path_entries_def ValPath_empty)
  ultimately show ?thesis by simp
qed

subsection \<open>Initialisation\<close>

lemma InitTLS_done: "initDone g \<Longrightarrow> InitTLS e g = g"
  by (simp add: InitTLS_def)

lemma InitTLS_sets: "initDone (InitTLS e g)"
  by (simp add: InitTLS_def Let_def)

lemma InitTLS_sslCiphers: "sslCiphers (InitTLS e g) = sslCiphers g"
  by (simp add: InitTLS_def Let_def)

lemma InitTLS_sink: "sink (InitTLS e g) = sink g"
  by (simp add: InitTLS_def Let_def)

lemma InitTLS_first:
  "\<not> initDone g \<Longrightarrow>
     InitTLS e g =
       (if XRDTLS_SET_CALLBACKS e
        then (if 0 < CRYPTO_num_locks e
              then g\<lparr>initDone := True, lib_calls := lib_calls g @ library_init,
                     MutexVector := Some (nat (CRYPTO_num_locks e)),
                     locking_callback := True, id_callback := True\<rparr>
              else g\<lparr>initDone := True, lib_calls := lib_calls g @ library_init,
                     id_callback := True\<rparr>)
        else g\<lparr>initDone := True, lib_calls := lib_calls g @ library_init\<rparr>)"
  by (simp add: InitTLS_def Let_def)

lemma InitTLS_funpow: "(InitTLS e ^^ Suc n) g = InitTLS e g"
proof (induction n)
  case 0
  show ?case by simp
next
  case (Suc n)
  have "(InitTLS e ^^ Suc (Suc n)) g = InitTLS e ((InitTLS e ^^ Suc n) g)" by simp
  also have "\<dots> = InitTLS e (InitTLS e g)" using Suc.IH by simp
  also have "\<dots> = InitTLS e g" by (rule InitTLS_done) (rule InitTLS_sets)
  finally show ?case .
qed

lemma after_gate_sink: "sink (after_gate e g) = sink g"
  by (simp add: after_gate_def InitTLS_sink)

subsection \<open>Defaulting\<close>

text \<open>
  The block of the constructor is the rule of the specification, and applying the rule to its own result changes nothing.
\<close>

lemma defaulting_spec:
  "defaulting e crt key caDir caFile ops =
     (if no_CA_known e crt key caDir caFile ops then None
      else Some (spec_defaults e crt key caDir caFile ops))"
  by (cases crt; cases key)
     (auto simp add: defaulting_def spec_defaults_def no_CA_known_def Let_def)

lemma no_CA_known_spec:
  assumes "no_CA_known e crt key caDir caFile ops"
    and "spec_defaults e crt key caDir caFile ops = (c, k, d, f)"
  shows "d = None \<and> f = None"
  using assms by (auto simp: no_CA_known_def spec_defaults_def)

lemma spec_defaults_idem:
  assumes "spec_defaults e crt key caDir caFile ops = (c, k, d, f)"
    and "\<not> no_CA_known e crt key caDir caFile ops"
  shows "spec_defaults e c k d f ops = (c, k, d, f) \<and> \<not> no_CA_known e c k d f ops"
proof (cases "ops AND servr e = 0")
  case False
  with assms show ?thesis by (simp add: spec_defaults_def no_CA_known_def)
next
  case True
  with assms have ca: "d \<noteq> None \<or> f \<noteq> None"
    by (auto simp: spec_defaults_def no_CA_known_def split: if_splits)
  from assms(1) True have "(case c of None \<Rightarrow> getenv e ''X509_USER_PROXY'' | Some s \<Rightarrow> Some s) = c"
    by (cases crt) (auto simp: spec_defaults_def split: option.splits)
  moreover from assms(1) True
  have "(case k of None \<Rightarrow> getenv e ''X509_USER_KEY'' | Some s \<Rightarrow> Some s) = k"
    by (cases key) (auto simp: spec_defaults_def split: option.splits)
  ultimately show ?thesis using ca True
    by (auto simp: spec_defaults_def no_CA_known_def)
qed

subsection \<open>The exits after the copy of the parameters\<close>

text \<open>
  One equation for each way out of the constructor from method selection on, under the conditions that lead there.
\<close>

lemma GetTlsMethod_None:
  "selected_method e = None \<Longrightarrow>
     GetTlsMethod e = (Some ''No negotiable TLS method available.'', None)"
  by (simp add: GetTlsMethod_def selected_method_def Let_def)

lemma GetTlsMethod_Some:
  "selected_method e = Some meth \<Longrightarrow> GetTlsMethod e = (None, Some meth)"
  by (simp add: GetTlsMethod_def selected_method_def Let_def)

lemma set_verify_fails:
  "(caDir \<noteq> None \<or> caFile \<noteq> None) \<Longrightarrow> SSL_CTX_load_verify_locations e caFile caDir = 0
     \<Longrightarrow> set_verify e ops caDir caFile c = None"
  by (simp add: set_verify_def)

lemma set_verify_CA:
  "(caDir \<noteq> None \<or> caFile \<noteq> None) \<Longrightarrow> SSL_CTX_load_verify_locations e caFile caDir \<noteq> 0
     \<Longrightarrow> set_verify e ops caDir caFile c =
           Some (c\<lparr>ca_file := caFile, ca_dir := caDir,
                  verify_depth := Some (if sint (signed_drop_bit (vdepS e) (ops AND vdept e)) \<noteq> 0
                                        then sint (signed_drop_bit (vdepS e) (ops AND vdept e))
                                        else 9),
                  verify := Some SSL_VERIFY_PEER,
                  verify_callback := (if ops AND logVF e \<noteq> 0 then Some VerCB_installed else None)\<rparr>)"
  by (simp add: set_verify_def Let_def)

lemma set_verify_no_CA:
  "caDir = None \<Longrightarrow> caFile = None
     \<Longrightarrow> set_verify e ops caDir caFile c =
           Some (c\<lparr>verify := Some SSL_VERIFY_NONE, verify_callback := None\<rparr>)"
  by (simp add: set_verify_def)

lemma policy_verification:
  "verification_policy e ops caDir caFile (policy e ops caDir caFile c0)"
  by (simp add: verification_policy_def policy_def)

lemma committed_verification:
  "verification_policy e ops caDir caFile (committed_ctx e meth crt key caDir caFile ops ciphers)"
  by (simp add: verification_policy_def committed_ctx_def)

lemma set_verify_policy:
  assumes "\<not> ((caDir \<noteq> None \<or> caFile \<noteq> None) \<and> SSL_CTX_load_verify_locations e caFile caDir = 0)"
  shows "set_verify e ops caDir caFile c = Some (policy e ops caDir caFile c)"
proof (cases "caDir \<noteq> None \<or> caFile \<noteq> None")
  case True
  with assms have "SSL_CTX_load_verify_locations e caFile caDir \<noteq> 0" by blast
  from set_verify_CA [OF True this] True show ?thesis
    by (simp add: policy_def)
next
  case False
  then have "caDir = None" "caFile = None" by simp_all
  from set_verify_no_CA [OF this] False show ?thesis
    by (simp add: policy_def)
qed

lemma reported_once_msgCB: "reported_once g (msgCB tid txt flag g)"
  unfolding reported_once_def msgCB_def by (rule exI) (rule refl)

lemma reported_once_Emsg: "reported_once g (Emsg e tid txt g)"
  by (simp add: Emsg_def reported_once_msgCB)

lemma reported_once_sink:
  "reported_once g g' \<Longrightarrow> \<exists>d. sink g' = sink g @ [d]"
  by (auto simp: reported_once_def)

lemma cfg_no_method:
  assumes "selected_method e = None"
  shows "configure e crt key caDir caFile ops pImpl g =
           (pImpl\<lparr>Parm := copy_params crt key caDir caFile ops (Parm pImpl)\<rparr>,
            msgCB ''TLS_Context'' ''No negotiable TLS method available.'' False g)"
  by (simp add: configure_def GetTlsMethod_None [OF assms] Let_def)

lemma cfg_no_alloc:
  assumes "selected_method e = Some meth" and "\<not> SSL_CTX_new e meth"
  shows "configure e crt key caDir caFile ops pImpl g =
           (pImpl\<lparr>Parm := copy_params crt key caDir caFile ops (Parm pImpl)\<rparr>,
            Emsg e ''TLS_Context'' ''Unable to allocate TLS context!'' g)"
  using assms(2) by (simp add: configure_def GetTlsMethod_Some [OF assms(1)] Let_def)

lemma cfg_no_CA_load:
  assumes "selected_method e = Some meth" and "SSL_CTX_new e meth"
    and "caDir \<noteq> None \<or> caFile \<noteq> None"
    and "SSL_CTX_load_verify_locations e caFile caDir = 0"
  shows "configure e crt key caDir caFile ops pImpl g =
           (pImpl\<lparr>Parm := copy_params crt key caDir caFile ops (Parm pImpl)\<rparr>,
            Emsg e ''TLS_Context'' ''Unable to set the CA cert file or directory.'' g)"
  using assms(2)
  by (simp add: configure_def GetTlsMethod_Some [OF assms(1)] Let_def
        set_verify_fails [OF assms(3,4)])

lemma cfg_no_cipher:
  assumes "selected_method e = Some meth" and "SSL_CTX_new e meth"
    and "\<not> ((caDir \<noteq> None \<or> caFile \<noteq> None) \<and> SSL_CTX_load_verify_locations e caFile caDir = 0)"
    and "SSL_CTX_set_cipher_list e (sslCiphers g) = 0"
  shows "configure e crt key caDir caFile ops pImpl g =
           (pImpl\<lparr>Parm := copy_params crt key caDir caFile ops (Parm pImpl)\<rparr>,
            Emsg e ''TLS_Context'' ''Unable to set SSL cipher list.'' g)"
  using assms(2,4)
  by (simp add: configure_def GetTlsMethod_Some [OF assms(1)] Let_def
        set_verify_policy [OF assms(3)])

lemma cfg_anonymous:
  assumes "selected_method e = Some meth" and "SSL_CTX_new e meth"
    and "\<not> ((caDir \<noteq> None \<or> caFile \<noteq> None) \<and> SSL_CTX_load_verify_locations e caFile caDir = 0)"
    and "SSL_CTX_set_cipher_list e (sslCiphers g) \<noteq> 0"
  shows "configure e None key caDir caFile ops pImpl g =
           (pImpl\<lparr>Parm := copy_params None key caDir caFile ops (Parm pImpl),
                  ctx := Some (committed_ctx e meth None key caDir caFile ops (sslCiphers g))\<rparr>, g)"
  using assms(2,4)
  by (simp add: configure_def GetTlsMethod_Some [OF assms(1)] Let_def
        set_verify_policy [OF assms(3)] policy_def committed_ctx_def fresh_SSL_CTX_def)

lemma cfg_cert_error:
  assumes "selected_method e = Some meth" and "SSL_CTX_new e meth"
    and "\<not> ((caDir \<noteq> None \<or> caFile \<noteq> None) \<and> SSL_CTX_load_verify_locations e caFile caDir = 0)"
    and "SSL_CTX_set_cipher_list e (sslCiphers g) \<noteq> 0"
    and "SSL_CTX_use_certificate_file e certf \<noteq> 1"
  shows "configure e (Some certf) key caDir caFile ops pImpl g =
           (pImpl\<lparr>Parm := copy_params (Some certf) key caDir caFile ops (Parm pImpl)\<rparr>,
            Emsg e ''LS_Context'' ''Unable to create TLS context; certificate error.'' g)"
  using assms(2,4,5)
  by (simp add: configure_def GetTlsMethod_Some [OF assms(1)] Let_def
        set_verify_policy [OF assms(3)])

lemma cfg_key_error:
  assumes "selected_method e = Some meth" and "SSL_CTX_new e meth"
    and "\<not> ((caDir \<noteq> None \<or> caFile \<noteq> None) \<and> SSL_CTX_load_verify_locations e caFile caDir = 0)"
    and "SSL_CTX_set_cipher_list e (sslCiphers g) \<noteq> 0"
    and "SSL_CTX_use_certificate_file e certf = 1"
    and "SSL_CTX_use_PrivateKey_file e (case key of None \<Rightarrow> certf | Some k \<Rightarrow> k) \<noteq> 1"
  shows "configure e (Some certf) key caDir caFile ops pImpl g =
           (pImpl\<lparr>Parm := copy_params (Some certf) key caDir caFile ops (Parm pImpl)\<rparr>,
            Emsg e ''TLS_Context'' ''Unable to create TLS context; private key error.'' g)"
  using assms(2,4,5,6)
  by (simp add: configure_def GetTlsMethod_Some [OF assms(1)] Let_def
        set_verify_policy [OF assms(3)])

lemma cfg_mismatch:
  assumes "selected_method e = Some meth" and "SSL_CTX_new e meth"
    and "\<not> ((caDir \<noteq> None \<or> caFile \<noteq> None) \<and> SSL_CTX_load_verify_locations e caFile caDir = 0)"
    and "SSL_CTX_set_cipher_list e (sslCiphers g) \<noteq> 0"
    and "SSL_CTX_use_certificate_file e certf = 1"
    and "SSL_CTX_use_PrivateKey_file e (case key of None \<Rightarrow> certf | Some k \<Rightarrow> k) = 1"
    and "SSL_CTX_check_private_key e certf (case key of None \<Rightarrow> certf | Some k \<Rightarrow> k) \<noteq> 1"
  shows "configure e (Some certf) key caDir caFile ops pImpl g =
           (pImpl\<lparr>Parm := copy_params (Some certf) key caDir caFile ops (Parm pImpl)\<rparr>,
            Emsg e ''TLS_Context'' ''Unable to create TLS context; cert-key mismatch.'' g)"
  using assms(2,4,5,6,7)
  by (simp add: configure_def GetTlsMethod_Some [OF assms(1)] Let_def
        set_verify_policy [OF assms(3)])

lemma cfg_with_cert:
  assumes "selected_method e = Some meth" and "SSL_CTX_new e meth"
    and "\<not> ((caDir \<noteq> None \<or> caFile \<noteq> None) \<and> SSL_CTX_load_verify_locations e caFile caDir = 0)"
    and "SSL_CTX_set_cipher_list e (sslCiphers g) \<noteq> 0"
    and "SSL_CTX_use_certificate_file e certf = 1"
    and "SSL_CTX_use_PrivateKey_file e (case key of None \<Rightarrow> certf | Some k \<Rightarrow> k) = 1"
    and "SSL_CTX_check_private_key e certf (case key of None \<Rightarrow> certf | Some k \<Rightarrow> k) = 1"
  shows "configure e (Some certf) key caDir caFile ops pImpl g =
           (pImpl\<lparr>Parm := copy_params (Some certf) key caDir caFile ops (Parm pImpl),
                  ctx := Some (committed_ctx e meth (Some certf) key caDir caFile ops (sslCiphers g))\<rparr>, g)"
  using assms(2,4,5,6,7)
  by (simp add: configure_def GetTlsMethod_Some [OF assms(1)] Let_def
        set_verify_policy [OF assms(3)] policy_def committed_ctx_def fresh_SSL_CTX_def)

lemma copy_params_new:
  "copy_params crt key caDir caFile ops (Parm (new_Impl e)) = effective_Parm crt key caDir caFile ops"
  by (cases crt; cases key; cases caDir; cases caFile;
      simp add: copy_params_def new_Impl_def effective_Parm_def)

lemma configure_pass:
  assumes "configuration_passes e crt key caDir caFile (sslCiphers g)"
  shows "\<exists>meth. selected_method e = Some meth
           \<and> configure e crt key caDir caFile ops pImpl g =
               (pImpl\<lparr>Parm := copy_params crt key caDir caFile ops (Parm pImpl),
                      ctx := Some (committed_ctx e meth crt key caDir caFile ops (sslCiphers g))\<rparr>,
                g)"
proof -
  from assms obtain meth where m: "selected_method e = Some meth"
    by (cases "selected_method e") (simp_all add: configuration_passes_def)
  with assms have h: "SSL_CTX_new e meth"
      "\<not> ((caDir \<noteq> None \<or> caFile \<noteq> None) \<and> SSL_CTX_load_verify_locations e caFile caDir = 0)"
      "SSL_CTX_set_cipher_list e (sslCiphers g) \<noteq> 0"
      "credentials_pass e crt key"
    by (auto simp: configuration_passes_def)
  show ?thesis
  proof (cases crt)
    case None
    with m cfg_anonymous [OF m h(1,2,3)] show ?thesis by simp
  next
    case (Some certf)
    with h(4) have "SSL_CTX_use_certificate_file e certf = 1"
      "SSL_CTX_use_PrivateKey_file e (case key of None \<Rightarrow> certf | Some k \<Rightarrow> k) = 1"
      "SSL_CTX_check_private_key e certf (case key of None \<Rightarrow> certf | Some k \<Rightarrow> k) = 1"
      by (simp_all add: credentials_pass_def)
    from cfg_with_cert [OF m h(1,2,3) this] m Some show ?thesis by simp
  qed
qed

lemma configure_fail:
  assumes "\<not> configuration_passes e crt key caDir caFile (sslCiphers g)"
  shows "fst (configure e crt key caDir caFile ops pImpl g)
           = pImpl\<lparr>Parm := copy_params crt key caDir caFile ops (Parm pImpl)\<rparr>
       \<and> reported_once g (snd (configure e crt key caDir caFile ops pImpl g))"
proof (cases "selected_method e")
  case None
  from cfg_no_method [OF this] show ?thesis by (simp add: reported_once_msgCB)
next
  case m: (Some meth)
  show ?thesis
  proof (cases "SSL_CTX_new e meth")
    case False
    from cfg_no_alloc [OF m this] show ?thesis by (simp add: reported_once_Emsg)
  next
    case new: True
    show ?thesis
    proof (cases "(caDir \<noteq> None \<or> caFile \<noteq> None) \<and> SSL_CTX_load_verify_locations e caFile caDir = 0")
      case True
      then have "caDir \<noteq> None \<or> caFile \<noteq> None" "SSL_CTX_load_verify_locations e caFile caDir = 0"
        by blast+
      from cfg_no_CA_load [OF m new this] show ?thesis by (simp add: reported_once_Emsg)
    next
      case ca: False
      show ?thesis
      proof (cases "SSL_CTX_set_cipher_list e (sslCiphers g) = 0")
        case True
        from cfg_no_cipher [OF m new ca this] show ?thesis by (simp add: reported_once_Emsg)
      next
        case ci: False
        from assms m new ca ci have nc: "\<not> credentials_pass e crt key"
          by (auto simp: configuration_passes_def)
        then obtain certf where c: "crt = Some certf"
          by (cases crt) (simp_all add: credentials_pass_def)
        show ?thesis
        proof (cases "SSL_CTX_use_certificate_file e certf = 1")
          case False
          from cfg_cert_error [OF m new ca ci this] c show ?thesis
            by (simp add: reported_once_Emsg)
        next
          case u1: True
          show ?thesis
          proof (cases "SSL_CTX_use_PrivateKey_file e (case key of None \<Rightarrow> certf | Some k \<Rightarrow> k) = 1")
            case False
            from cfg_key_error [OF m new ca ci u1 this] c show ?thesis
              by (simp add: reported_once_Emsg)
          next
            case u2: True
            with nc c u1
            have "SSL_CTX_check_private_key e certf (case key of None \<Rightarrow> certf | Some k \<Rightarrow> k) \<noteq> 1"
              by (simp add: credentials_pass_def)
            from cfg_mismatch [OF m new ca ci u1 u2 this] c show ?thesis
              by (simp add: reported_once_Emsg)
          qed
        qed
      qed
    qed
  qed
qed

lemma configure_Parm:
  "Parm (fst (configure e c k d f ops (new_Impl e) g)) = effective_Parm c k d f ops"
proof (cases "configuration_passes e c k d f (sslCiphers g)")
  case True
  from configure_pass [OF this, of ops "new_Impl e"] show ?thesis
    by (auto simp: copy_params_new)
next
  case False
  from configure_fail [OF this, of ops "new_Impl e"] show ?thesis
    by (simp add: copy_params_new)
qed

subsection \<open>The constructor\<close>

lemma ctor_unfold:
  "XrdTlsContext e crt key caDir caFile ops g =
     (if \<not> initDone g \<and> \<not> OPENSSL_THREADS e
      then (new_Impl e, msgCB ''TLS_Context'' thread_support_text False g)
      else
        (case defaulting e crt key caDir caFile ops of
           None \<Rightarrow> (new_Impl e, msgCB ''Tls_Context'' no_CA_text False (InitTLS e g))
         | Some (crt1, key1, caDir1, caFile1) \<Rightarrow>
             (case VerPaths e crt1 key1 caDir1 caFile1 of
                Inl eText \<Rightarrow> (new_Impl e, msgCB ''TLS_Context'' eText False (InitTLS e g))
              | Inr _ \<Rightarrow> configure e crt1 key1 caDir1 caFile1 ops (new_Impl e) (InitTLS e g))))"
  by (cases "initDone g")
     (simp_all add: XrdTlsContext_def Init_def InitTLS_done Let_def thread_support_text_def
        no_CA_text_def split: option.split sum.split prod.split)

lemma ctor_gate_closed:
  assumes "\<not> (initDone g \<or> OPENSSL_THREADS e)"
  shows "XrdTlsContext e crt key caDir caFile ops g =
           (new_Impl e, msgCB ''TLS_Context'' thread_support_text False g)"
  using assms by (simp add: ctor_unfold)

lemma ctor_no_CA:
  assumes "initDone g \<or> OPENSSL_THREADS e" and "no_CA_known e crt key caDir caFile ops"
  shows "XrdTlsContext e crt key caDir caFile ops g =
           (new_Impl e, msgCB ''Tls_Context'' no_CA_text False (InitTLS e g))"
  using assms by (auto simp add: ctor_unfold defaulting_spec)

lemma ctor_bad_path:
  assumes "initDone g \<or> OPENSSL_THREADS e" and "\<not> no_CA_known e crt key caDir caFile ops"
    and "spec_defaults e crt key caDir caFile ops = (c, k, d, f)"
    and "VerPaths e c k d f = Inl eText"
  shows "XrdTlsContext e crt key caDir caFile ops g =
           (new_Impl e, msgCB ''TLS_Context'' eText False (InitTLS e g))"
  using assms by (auto simp add: ctor_unfold defaulting_spec)

lemma ctor_configure:
  assumes "initDone g \<or> OPENSSL_THREADS e" and "\<not> no_CA_known e crt key caDir caFile ops"
    and "spec_defaults e crt key caDir caFile ops = (c, k, d, f)"
    and "VerPaths e c k d f = Inr ()"
  shows "XrdTlsContext e crt key caDir caFile ops g =
           configure e c k d f ops (new_Impl e) (InitTLS e g)"
  using assms by (auto simp add: ctor_unfold defaulting_spec)

lemma ctor_pass:
  assumes "every_step_passes e crt key caDir caFile ops g"
  shows "\<exists>crt1 key1 caDir1 caFile1 meth.
           defaulting e crt key caDir caFile ops = Some (crt1, key1, caDir1, caFile1)
         \<and> VerPaths e crt1 key1 caDir1 caFile1 = Inr ()
         \<and> selected_method e = Some meth
         \<and> XrdTlsContext e crt key caDir caFile ops g =
             (\<lparr>ctx = Some (committed_ctx e meth crt1 key1 caDir1 caFile1 ops (sslCiphers g)),
               Parm = effective_Parm crt1 key1 caDir1 caFile1 ops\<rparr>,
              InitTLS e g)"
proof -
  from assms have gate: "initDone g \<or> OPENSSL_THREADS e"
    by (simp add: every_step_passes_def)
  from assms obtain crt1 key1 caDir1 caFile1 where
    d: "defaulting e crt key caDir caFile ops = Some (crt1, key1, caDir1, caFile1)"
    by (cases "defaulting e crt key caDir caFile ops") (auto simp: every_step_passes_def)
  with assms have v: "VerPaths e crt1 key1 caDir1 caFile1 = Inr ()"
    and c: "configuration_passes e crt1 key1 caDir1 caFile1 (sslCiphers (InitTLS e g))"
    by (simp_all add: every_step_passes_def InitTLS_sslCiphers)
  from configure_pass [OF c, of ops "new_Impl e"] obtain meth where
    m: "selected_method e = Some meth"
    and k: "configure e crt1 key1 caDir1 caFile1 ops (new_Impl e) (InitTLS e g) =
              ((new_Impl e)\<lparr>Parm := copy_params crt1 key1 caDir1 caFile1 ops (Parm (new_Impl e)),
                  ctx := Some (committed_ctx e meth crt1 key1 caDir1 caFile1 ops
                                 (sslCiphers (InitTLS e g)))\<rparr>, InitTLS e g)"
    by blast
  have "XrdTlsContext e crt key caDir caFile ops g =
          configure e crt1 key1 caDir1 caFile1 ops (new_Impl e) (InitTLS e g)"
    using gate d v by (auto simp add: ctor_unfold)
  with k have "XrdTlsContext e crt key caDir caFile ops g =
             (\<lparr>ctx = Some (committed_ctx e meth crt1 key1 caDir1 caFile1 ops (sslCiphers g)),
               Parm = effective_Parm crt1 key1 caDir1 caFile1 ops\<rparr>,
              InitTLS e g)"
    by (simp add: copy_params_new InitTLS_sslCiphers)
  with d v m show ?thesis by blast
qed

lemma ctor_fail:
  assumes "\<not> every_step_passes e crt key caDir caFile ops g"
  shows "ctx (fst (XrdTlsContext e crt key caDir caFile ops g)) = None
       \<and> reported_once (after_gate e g) (snd (XrdTlsContext e crt key caDir caFile ops g))"
proof (cases "initDone g \<or> OPENSSL_THREADS e")
  case False
  then show ?thesis
    by (simp add: ctor_unfold new_Impl_def after_gate_def reported_once_msgCB)
next
  case gate: True
  then have ag: "after_gate e g = InitTLS e g"
    by (auto simp: after_gate_def InitTLS_done)
  show ?thesis
  proof (cases "defaulting e crt key caDir caFile ops")
    case None
    with gate show ?thesis
      unfolding ag by (auto simp add: ctor_unfold new_Impl_def reported_once_msgCB)
  next
    case (Some r)
    then obtain crt1 key1 caDir1 caFile1 where
      d: "defaulting e crt key caDir caFile ops = Some (crt1, key1, caDir1, caFile1)"
      by (cases r) auto
    show ?thesis
    proof (cases "VerPaths e crt1 key1 caDir1 caFile1")
      case (Inl eText)
      with gate d show ?thesis
        unfolding ag by (auto simp add: ctor_unfold new_Impl_def reported_once_msgCB)
    next
      case (Inr u)
      with assms gate d
      have "\<not> configuration_passes e crt1 key1 caDir1 caFile1 (sslCiphers (InitTLS e g))"
        by (auto simp: every_step_passes_def InitTLS_sslCiphers)
      from configure_fail [OF this, of ops "new_Impl e"] gate d Inr show ?thesis
        unfolding ag by (auto simp add: ctor_unfold new_Impl_def)
    qed
  qed
qed

lemma ctor_success:
  assumes "XrdTlsContext e crt key caDir caFile ops g = (p, g')" and "ctx p = Some sc"
    and "spec_defaults e crt key caDir caFile ops = (c, k, d, f)"
  shows "\<exists>meth. sc = committed_ctx e meth c k d f ops (sslCiphers g)
           \<and> Parm p = effective_Parm c k d f ops
           \<and> VerPaths e c k d f = Inr ()
           \<and> selected_method e = Some meth
           \<and> configuration_passes e c k d f (sslCiphers g)
           \<and> (initDone g \<or> OPENSSL_THREADS e)
           \<and> \<not> no_CA_known e crt key caDir caFile ops
           \<and> g' = InitTLS e g"
proof -
  have pass: "every_step_passes e crt key caDir caFile ops g"
  proof (rule ccontr)
    assume "\<not> every_step_passes e crt key caDir caFile ops g"
    from ctor_fail [OF this] assms(1,2) show False by simp
  qed
  then have known: "\<not> no_CA_known e crt key caDir caFile ops"
    and gate: "initDone g \<or> OPENSSL_THREADS e"
    by (auto simp: every_step_passes_def defaulting_spec)
  with pass assms(3) have cp: "configuration_passes e c k d f (sslCiphers g)"
    by (auto simp: every_step_passes_def defaulting_spec)
  from ctor_pass [OF pass] known assms show ?thesis
    using gate cp by (auto simp: defaulting_spec)
qed

lemma ctor_load_fails:
  assumes "spec_defaults e crt key caDir caFile ops = (c, k, d, f)"
    and "d \<noteq> None \<or> f \<noteq> None" and "SSL_CTX_load_verify_locations e f d = 0"
  shows "ctx (fst (XrdTlsContext e crt key caDir caFile ops g)) = None"
proof -
  have "\<not> every_step_passes e crt key caDir caFile ops g"
    using assms by (auto simp: every_step_passes_def defaulting_spec configuration_passes_def
        split: option.splits)
  from ctor_fail [OF this] show ?thesis by simp
qed

lemma ctor_globals:
  "(snd (XrdTlsContext e crt key caDir caFile ops g))\<lparr>sink := sink g\<rparr> = after_gate e g"
proof (cases "every_step_passes e crt key caDir caFile ops g")
  case True
  then have "initDone g \<or> OPENSSL_THREADS e" by (simp add: every_step_passes_def)
  then have "after_gate e g = InitTLS e g" by (auto simp: after_gate_def InitTLS_done)
  moreover have "(InitTLS e g)\<lparr>sink := sink g\<rparr> = InitTLS e g"
    using InitTLS_sink [of e g] by (metis glob.surjective glob.update_convs(7))
  ultimately show ?thesis using ctor_pass [OF True] by auto
next
  case False
  from ctor_fail [OF this] obtain d where
    "snd (XrdTlsContext e crt key caDir caFile ops g)
       = (after_gate e g)\<lparr>sink := sink (after_gate e g) @ [d]\<rparr>"
    by (auto simp: reported_once_def)
  moreover have "(after_gate e g)\<lparr>sink := sink g\<rparr> = after_gate e g"
    using after_gate_sink [of e g] by (metis glob.surjective glob.update_convs(7))
  ultimately show ?thesis by simp
qed

subsection \<open>The stored parameters\<close>

lemma x509Verify_effective:
  assumes "VerPaths e c k d f = Inr ()" and "Parm p = effective_Parm c k d f ops"
  shows "x509Verify p \<longleftrightarrow> d \<noteq> None \<or> f \<noteq> None"
  using VerPaths_nonempty [OF assms(1)] assms(2)
  by (cases d; cases f) (simp_all add: x509Verify_def effective_Parm_def)

lemma x509Verify_new: "\<not> x509Verify (new_Impl e)"
  by (simp add: x509Verify_def new_Impl_def)

lemma x509Verify_ctor:
  "x509Verify (fst (XrdTlsContext e crt key caDir caFile ops g))
     \<longleftrightarrow> CA_paths_copied e crt key caDir caFile ops g"
proof -
  obtain c k d f where s: "spec_defaults e crt key caDir caFile ops = (c, k, d, f)"
    by (cases "spec_defaults e crt key caDir caFile ops") auto
  show ?thesis
  proof (cases "initDone g \<or> OPENSSL_THREADS e")
    case False
    from ctor_gate_closed [OF this] False show ?thesis
      by (simp add: CA_paths_copied_def x509Verify_new)
  next
    case gate: True
    show ?thesis
    proof (cases "no_CA_known e crt key caDir caFile ops")
      case True
      from ctor_no_CA [OF gate True] no_CA_known_spec [OF True s] s show ?thesis
        by (simp add: CA_paths_copied_def x509Verify_new)
    next
      case known: False
      show ?thesis
      proof (cases "VerPaths e c k d f")
        case (Inl eText)
        from ctor_bad_path [OF gate known s Inl] s Inl show ?thesis
          by (simp add: CA_paths_copied_def x509Verify_new)
      next
        case (Inr u)
        then have v: "VerPaths e c k d f = Inr ()" by simp
        have "Parm (fst (XrdTlsContext e crt key caDir caFile ops g)) = effective_Parm c k d f ops"
          by (simp add: ctor_configure [OF gate known s v] configure_Parm)
        from x509Verify_effective [OF v this] gate s v show ?thesis
          by (simp add: CA_paths_copied_def)
      qed
    qed
  qed
qed

lemma replay_effective:
  assumes "VerPaths e c k d f = Inr ()"
  shows "replay (cert (effective_Parm c k d f ops)) = c"
    and "replay (pkey (effective_Parm c k d f ops)) = k"
    and "replay (cadir (effective_Parm c k d f ops)) = d"
    and "replay (cafile (effective_Parm c k d f ops)) = f"
  using VerPaths_nonempty [OF assms]
  by (cases c; cases k; cases d; cases f; simp add: replay_def effective_Parm_def)+

lemma opts_effective: "opts (effective_Parm c k d f ops) = ops"
  by (simp add: effective_Parm_def)

lemma Clone_replay:
  "Clone e p g =
     (let r = XrdTlsContext e (replay (cert (Parm p))) (replay (pkey (Parm p)))
                (replay (cadir (Parm p))) (replay (cafile (Parm p))) (opts (Parm p)) g
      in (if Context (fst r) \<noteq> None then Some (fst r) else None, snd r))"
  by (simp add: Clone_def replay_def Let_def split_beta)

lemma Clone_of_built:
  assumes "XrdTlsContext e crt key caDir caFile ops g0 = (p, g1)" and "Context p \<noteq> None"
    and "sslCiphers g = sslCiphers g0" and "initDone g \<or> OPENSSL_THREADS e"
  shows "Clone e p g = (Some p, InitTLS e g)"
proof -
  obtain c k d f where s: "spec_defaults e crt key caDir caFile ops = (c, k, d, f)"
    by (cases "spec_defaults e crt key caDir caFile ops") auto
  from assms(2) obtain sc where sc: "ctx p = Some sc" by (auto simp: Context_def)
  from ctor_success [OF assms(1) sc s] obtain meth where
    r: "sc = committed_ctx e meth c k d f ops (sslCiphers g0)"
       "Parm p = effective_Parm c k d f ops" "VerPaths e c k d f = Inr ()"
       "selected_method e = Some meth" "configuration_passes e c k d f (sslCiphers g0)"
       "\<not> no_CA_known e crt key caDir caFile ops"
    by blast
  have P: "p = \<lparr>ctx = Some sc, Parm = effective_Parm c k d f ops\<rparr>"
    using sc r(2) by (cases p) simp
  from spec_defaults_idem [OF s r(6)]
  have d: "defaulting e c k d f ops = Some (c, k, d, f)" by (simp add: defaulting_spec)
  have "every_step_passes e c k d f ops g"
    using assms(3,4) d r(3,5) by (simp add: every_step_passes_def)
  from ctor_pass [OF this] d r(4)
  have "XrdTlsContext e c k d f ops g =
          (\<lparr>ctx = Some (committed_ctx e meth c k d f ops (sslCiphers g)),
            Parm = effective_Parm c k d f ops\<rparr>, InitTLS e g)"
    by auto
  then have "XrdTlsContext e c k d f ops g = (p, InitTLS e g)"
    using P r(1) assms(3) by simp
  then show ?thesis
    using sc by (simp add: Clone_replay r(2) replay_effective [OF r(3)] opts_effective Context_def)
qed

lemma Clone_Parm:
  assumes "XrdTlsContext e crt key caDir caFile ops g0 = (p, g1)" and "Context p \<noteq> None"
    and "fst (Clone e p g) = Some q"
  shows "Parm q = Parm p"
proof -
  obtain c k d f where s: "spec_defaults e crt key caDir caFile ops = (c, k, d, f)"
    by (cases "spec_defaults e crt key caDir caFile ops") auto
  from assms(2) obtain sc where sc: "ctx p = Some sc" by (auto simp: Context_def)
  from ctor_success [OF assms(1) sc s]
  have r: "Parm p = effective_Parm c k d f ops" "VerPaths e c k d f = Inr ()"
       "\<not> no_CA_known e crt key caDir caFile ops"
    by blast+
  from spec_defaults_idem [OF s r(3)]
  have i: "spec_defaults e c k d f ops = (c, k, d, f)" by simp
  have cl: "Clone e p g =
          (if Context (fst (XrdTlsContext e c k d f ops g)) \<noteq> None
           then Some (fst (XrdTlsContext e c k d f ops g)) else None,
           snd (XrdTlsContext e c k d f ops g))"
    by (simp add: Clone_replay r(1) replay_effective [OF r(2)] opts_effective Let_def)
  with assms(3) have q: "fst (XrdTlsContext e c k d f ops g) = q" and "Context q \<noteq> None"
    by (auto split: if_splits)
  then obtain sq where sq: "ctx q = Some sq" by (auto simp: Context_def)
  have "XrdTlsContext e c k d f ops g = (q, snd (XrdTlsContext e c k d f ops g))"
    using q by (metis prod.collapse)
  from ctor_success [OF this sq i] have "Parm q = effective_Parm c k d f ops" by blast
  with r(1) show ?thesis by simp
qed

subsection \<open>The scenarios evaluated\<close>

lemmas mode_defs =
  cadr_mode_def pkey_mode_def cert_mode_def cafl_mode_def
  S_IRUSR_def S_IWUSR_def S_IRWXU_def S_IRGRP_def S_IXGRP_def S_IRWXG_def S_IROTH_def
  S_IXOTH_def S_IRWXO_def

lemma scenario_method: "selected_method scenario = Some TLS_any"
  by (simp add: selected_method_def scenario_def)

lemma scenario_gate: "OPENSSL_THREADS scenario" "\<not> initDone (start scenario)"
  by (simp_all add: scenario_def start_def)

lemma scenario_VerPaths_happy:
  "VerPaths scenario (Some ''/tmp/c.pem'') (Some ''/tmp/k.pem'') (Some ''/etc/ca'') None = Inr ()"
  by (simp add: VerPaths_def ValPath_def stat_def scenario_def scenario_files_def
        cadr_mode_def pkey_mode_def cert_mode_def cafl_mode_def
        S_IRUSR_def S_IWUSR_def S_IRWXU_def S_IRGRP_def S_IXGRP_def S_IRWXG_def S_IROTH_def
        S_IXOTH_def S_IRWXO_def)

lemma scenario_defaulting_happy:
  "defaulting scenario (Some ''/tmp/c.pem'') (Some ''/tmp/k.pem'') (Some ''/etc/ca'') None 0
     = Some (Some ''/tmp/c.pem'', Some ''/tmp/k.pem'', Some ''/etc/ca'', None)"
  by (simp add: defaulting_def scenario_def)

lemma scenario_happy:
  "every_step_passes scenario (Some ''/tmp/c.pem'') (Some ''/tmp/k.pem'') (Some ''/etc/ca'') None 0
     (start scenario)"
  by (simp add: every_step_passes_def scenario_defaulting_happy scenario_VerPaths_happy
        configuration_passes_def scenario_method credentials_pass_def)
     (simp add: scenario_def)

lemma scenario_defaulting_none:
  "defaulting scenario None None None None 0 = None"
  by (simp add: defaulting_def scenario_def)

lemma scenario_no_CA:
  "0 AND servr scenario = 0 \<and> (None :: string option) = None \<and> (None :: string option) = None
       \<and> getenv scenario ''X509_CERT_DIR'' = None \<and> getenv scenario ''X509_CERT_FILE'' = None"
  by (simp add: scenario_def)

lemma permissive_key:
  "VerPaths scenario (Some ''/tmp/c.pem'') (Some ''/tmp/k640.pem'') (Some ''/etc/ca'') None
     = Inl ''Unable to use key file /tmp/k640.pem; has excessive access rights.''"
  by (simp add: VerPaths_def ValPath_def stat_def scenario_def scenario_files_def scenario_text_def
        cadr_mode_def pkey_mode_def cert_mode_def cafl_mode_def
       S_IRUSR_def S_IWUSR_def S_IRWXU_def S_IRGRP_def S_IXGRP_def S_IRWXG_def S_IROTH_def S_IXOTH_def S_IRWXO_def)

lemma happy_build:
  "XrdTlsContext scenario (Some ''/tmp/c.pem'') (Some ''/tmp/k.pem'') (Some ''/etc/ca'') None 0
     (start scenario)
   = (\<lparr>ctx = Some (committed_ctx scenario TLS_any (Some ''/tmp/c.pem'') (Some ''/tmp/k.pem'')
                     (Some ''/etc/ca'') None 0 (sslCiphers (start scenario))),
       Parm = effective_Parm (Some ''/tmp/c.pem'') (Some ''/tmp/k.pem'') (Some ''/etc/ca'') None 0\<rparr>,
      InitTLS scenario (start scenario))"
  using ctor_pass [OF scenario_happy]
  by (auto simp: scenario_defaulting_happy scenario_method)

lemma happy_CA_copied:
  "CA_paths_copied scenario (Some ''/tmp/c.pem'') (Some ''/tmp/k.pem'') (Some ''/etc/ca'') None 0
     (start scenario)"
  using scenario_defaulting_happy scenario_VerPaths_happy scenario_gate(1)
  by (auto simp: CA_paths_copied_def defaulting_spec split: if_splits)

lemma no_method_facts:
  "initDone (start no_method) \<or> OPENSSL_THREADS no_method"
  "\<not> no_CA_known no_method None None (Some ''/etc/ca'') None 0"
  "spec_defaults no_method None None (Some ''/etc/ca'') None 0 = (None, None, Some ''/etc/ca'', None)"
  "VerPaths no_method None None (Some ''/etc/ca'') None = Inr ()"
  "\<not> configuration_passes no_method None None (Some ''/etc/ca'') None (sslCiphers (start no_method))"
  by (simp_all add: no_method_def scenario_def no_CA_known_def spec_defaults_def
        VerPaths_def ValPath_def stat_def scenario_files_def mode_defs
        configuration_passes_def selected_method_def)

lemma proxy_client_facts:
  "initDone (start proxy_client) \<or> OPENSSL_THREADS proxy_client"
  "\<not> (0 AND servr proxy_client = 0 \<and> (None :: string option) = None \<and> (None :: string option) = None
       \<and> getenv proxy_client ''X509_CERT_DIR'' = None \<and> getenv proxy_client ''X509_CERT_FILE'' = None)"
  "spec_defaults proxy_client None None None None 0
     = (Some ''/tmp/bundle.pem'', None, Some ''/etc/ca'', None)"
  "VerPaths proxy_client (Some ''/tmp/bundle.pem'') None (Some ''/etc/ca'') None = Inr ()"
  by (simp_all add: proxy_client_def scenario_def spec_defaults_def
        VerPaths_def ValPath_def stat_def scenario_files_def mode_defs)

lemma logged_passes:
  "every_step_passes scenario (Some ''/tmp/c.pem'') (Some ''/tmp/k.pem'') (Some ''/etc/ca'') None
     0x40000300 (start scenario)"
  by (simp add: every_step_passes_def defaulting_spec no_CA_known_def spec_defaults_def
        scenario_VerPaths_happy configuration_passes_def scenario_method credentials_pass_def)
     (simp add: scenario_def)

lemma logged_facts:
  "spec_defaults scenario (Some ''/tmp/c.pem'') (Some ''/tmp/k.pem'') (Some ''/etc/ca'') None
     0x40000300 = (Some ''/tmp/c.pem'', Some ''/tmp/k.pem'', Some ''/etc/ca'', None)"
  "sint (signed_drop_bit (vdepS scenario) (0x40000300 AND vdept scenario)) = 3"
  "0x40000300 AND logVF scenario \<noteq> 0"
  by (simp_all add: spec_defaults_def scenario_def)

lemma anonymous_server_facts:
  "every_step_passes scenario None None None None 0x20000000 (start scenario)"
  "spec_defaults scenario None None None None 0x20000000 = (None, None, None, None)"
proof -
  have s: "0x20000000 AND servr scenario \<noteq> 0" by (simp add: scenario_def)
  then show "spec_defaults scenario None None None None 0x20000000 = (None, None, None, None)"
    by (simp add: spec_defaults_def)
  have v: "VerPaths scenario None None None None = Inr ()" by (simp add: VerPaths_def)
  have c: "configuration_passes scenario None None None None (sslCiphers (start scenario))"
    by (simp add: configuration_passes_def scenario_method credentials_pass_def)
       (simp add: scenario_def)
  from s v c show "every_step_passes scenario None None None None 0x20000000 (start scenario)"
    by (simp add: every_step_passes_def defaulting_def scenario_gate)
qed

lemma fmt_d_10: "fmt_d 10 = ''10''"
  by code_simp

lemma fmt_d_0: "fmt_d 0 = ''0''"
  by code_simp

section \<open>The claims\<close>

text \<open>
  C1. After the constructor has run, either the accessor is non-null, every step
  (initialisation, defaulting, path validation, method selection, allocation,
  verify-location load, cipher load and, with a certificate, its load, the key load
  and the cross-check) passed and nothing was handed to the sink; or the accessor is
  null, some step did not pass, and one diagnostic was handed to the sink.
\<close>

theorem build_outcome:
  assumes "XrdTlsContext e crt key caDir caFile ops g = (p, g')"
  shows "(Context p \<noteq> None \<and> every_step_passes e crt key caDir caFile ops g \<and> sink g' = sink g)
       \<or> (Context p = None \<and> \<not> every_step_passes e crt key caDir caFile ops g
            \<and> (\<exists>d. sink g' = sink g @ [d]))"
proof (cases "every_step_passes e crt key caDir caFile ops g")
  case True
  from ctor_pass [OF this] assms have "ctx p \<noteq> None" "g' = InitTLS e g" by auto
  with True show ?thesis by (simp add: Context_def InitTLS_sink)
next
  case False
  from ctor_fail [OF this] assms
  have "ctx p = None" "reported_once (after_gate e g) g'" by simp_all
  with False reported_once_sink [of "after_gate e g" g'] show ?thesis
    by (simp add: Context_def after_gate_sink)
qed

theorem build_outcome_witness:
  "Context (fst (XrdTlsContext scenario (Some ''/tmp/c.pem'') (Some ''/tmp/k.pem'')
                   (Some ''/etc/ca'') None 0 (start scenario))) \<noteq> None
   \<and> every_step_passes scenario (Some ''/tmp/c.pem'') (Some ''/tmp/k.pem'') (Some ''/etc/ca'') None 0
        (start scenario)
   \<and> sink (snd (XrdTlsContext scenario (Some ''/tmp/c.pem'') (Some ''/tmp/k.pem'')
                   (Some ''/etc/ca'') None 0 (start scenario))) = sink (start scenario)"
  using scenario_happy
    build_outcome [OF prod.collapse [symmetric], of scenario "Some ''/tmp/c.pem''" "Some ''/tmp/k.pem''"
      "Some ''/etc/ca''" None 0 "start scenario"]
  by blast

text \<open>
  C2. The tags of the diagnostics of two failed builds, evaluated: a client build
  without any CA location reports under \<open>Tls_Context\<close>, and a build whose
  certificate file the library rejects reports under \<open>LS_Context\<close>; neither is
  \<open>TLS_Context\<close>.
\<close>

theorem tags_evaluated:
  "map component (sink (snd (XrdTlsContext scenario None None None None 0 (start scenario))))
     = [''Tls_Context'']
   \<and> map component
       (sink (snd (XrdTlsContext bad_certificate (Some ''/tmp/c.pem'') (Some ''/tmp/k.pem'')
                     (Some ''/etc/ca'') None 0 (start bad_certificate))))
     = [''LS_Context'']"
proof
  show "map component (sink (snd (XrdTlsContext scenario None None None None 0 (start scenario))))
          = [''Tls_Context'']"
    by (simp add: ctor_unfold scenario_gate scenario_defaulting_none msgCB_def InitTLS_sink)
       (simp add: start_def)
next
  have m: "selected_method bad_certificate = Some TLS_any"
    by (simp add: selected_method_def bad_certificate_def scenario_def)
  have d: "defaulting bad_certificate (Some ''/tmp/c.pem'') (Some ''/tmp/k.pem'') (Some ''/etc/ca'') None 0
             = Some (Some ''/tmp/c.pem'', Some ''/tmp/k.pem'', Some ''/etc/ca'', None)"
    by (simp add: defaulting_def)
  have v: "VerPaths bad_certificate (Some ''/tmp/c.pem'') (Some ''/tmp/k.pem'') (Some ''/etc/ca'') None
             = Inr ()"
    by (simp add: VerPaths_def ValPath_def stat_def bad_certificate_def scenario_def
          scenario_files_def cadr_mode_def pkey_mode_def cert_mode_def cafl_mode_def
          S_IRUSR_def S_IWUSR_def S_IRWXU_def S_IRGRP_def S_IXGRP_def S_IRWXG_def S_IROTH_def
          S_IXOTH_def S_IRWXO_def)
  have t: "OPENSSL_THREADS bad_certificate"
    by (simp add: bad_certificate_def scenario_def)
  have c: "configure bad_certificate (Some ''/tmp/c.pem'') (Some ''/tmp/k.pem'') (Some ''/etc/ca'') None 0
             (new_Impl bad_certificate) (InitTLS bad_certificate (start bad_certificate))
           = ((new_Impl bad_certificate)
                \<lparr>Parm := copy_params (Some ''/tmp/c.pem'') (Some ''/tmp/k.pem'') (Some ''/etc/ca'') None 0
                           (Parm (new_Impl bad_certificate))\<rparr>,
              Emsg bad_certificate ''LS_Context'' ''Unable to create TLS context; certificate error.''
                (InitTLS bad_certificate (start bad_certificate)))"
    by (rule cfg_cert_error [OF m]) (simp_all add: bad_certificate_def scenario_def)
  show "map component
       (sink (snd (XrdTlsContext bad_certificate (Some ''/tmp/c.pem'') (Some ''/tmp/k.pem'')
                     (Some ''/etc/ca'') None 0 (start bad_certificate))))
     = [''LS_Context'']"
    by (simp add: ctor_unfold t d v c Emsg_def msgCB_def InitTLS_sink)
       (simp add: start_def)
qed

text \<open>
  C3 (as amended). On a store context that holds a current certificate whenever
  \<open>aOK\<close> is zero, the callback returns \<open>aOK\<close> unchanged. When \<open>aOK\<close> is non-zero
  it hands nothing to the sink; when it is zero it hands over exactly three records,
  each tagged \<open>Cert\<close> and each with the flag \<open>false\<close>, giving the one-line subject,
  the one-line issuer, and the error code, depth and text.
\<close>

theorem VerCB_logs:
  assumes "aOK = 0 \<longrightarrow> current_cert x509P = Some crt"
  shows "VerCB e aOK x509P g =
     Inr (aOK,
          g\<lparr>sink := sink g @
             (if aOK = 0
              then [\<lparr>component = ''Cert'',
                     message = snprintf 1024 (''Cert verification failed for DN=''
                                 @ X509_NAME_oneline e (subject_name crt) 512),
                     isError = False\<rparr>,
                    \<lparr>component = ''Cert'',
                     message = snprintf 1024 (''Failing cert issuer=''
                                 @ X509_NAME_oneline e (issuer_name crt) 512),
                     isError = False\<rparr>,
                    \<lparr>component = ''Cert'',
                     message = snprintf 1024 (''Error '' @ fmt_d (error x509P) @ '' at depth ''
                                 @ fmt_d (error_depth x509P) @ '' [''
                                 @ X509_verify_cert_error_string e (error x509P) @ '']''),
                     isError = False\<rparr>]
              else [])\<rparr>)"
  using assms by (simp add: VerCB_def msgCB_def Let_def)

theorem VerCB_logs_witness:
  "current_cert expired = Some peer_cert
   \<and> VerCB scenario 0 expired (start scenario) =
       Inr (0, (start scenario)
           \<lparr>sink := [\<lparr>component = ''Cert'', message = ''Cert verification failed for DN=/CN=peer'',
                       isError = False\<rparr>,
                     \<lparr>component = ''Cert'', message = ''Failing cert issuer=/CN=ca'',
                       isError = False\<rparr>,
                     \<lparr>component = ''Cert'',
                       message = ''Error 10 at depth 0 [certificate has expired]'',
                       isError = False\<rparr>]\<rparr>)"
proof -
  have c: "current_cert expired = Some peer_cert"
    by (simp add: expired_def)
  then have h: "0 = (0::int) \<longrightarrow> current_cert expired = Some peer_cert"
    by simp
  from VerCB_logs [OF h, of scenario "start scenario"] c show ?thesis
    by (simp add: snprintf_def expired_def peer_cert_def fmt_d_10 fmt_d_0 start_def scenario_def)
qed

text \<open>
  C3 as stated asks for records marked as errors and for a return on every store
  context: the three records of a rejected certificate carry the flag \<open>false\<close>, and on
  a store context without a current certificate the callback does not return.
\<close>

theorem VerCB_flag_counterexample:
  "VerCB scenario 0 expired (start scenario) =
     Inr (0, (start scenario)
         \<lparr>sink := [\<lparr>component = ''Cert'', message = ''Cert verification failed for DN=/CN=peer'',
                     isError = False\<rparr>,
                   \<lparr>component = ''Cert'', message = ''Failing cert issuer=/CN=ca'',
                     isError = False\<rparr>,
                   \<lparr>component = ''Cert'', message = ''Error 10 at depth 0 [certificate has expired]'',
                     isError = False\<rparr>]\<rparr>)
   \<and> VerCB scenario 0 no_certificate (start scenario) = Inl Null_dereference"
  by (simp add: VerCB_def msgCB_def Let_def snprintf_def expired_def peer_cert_def
        no_certificate_def fmt_d_10 fmt_d_0 start_def scenario_def)

text \<open>
  C4 (as amended). \<open>x509Verify\<close> of the object the constructor leaves is true exactly
  when CA paths were copied into its Parameters. Where peer verification is enabled
  it is true, and on an object whose accessor is non-null it is true exactly when
  peer verification is enabled.
\<close>

theorem x509Verify_copied:
  assumes "XrdTlsContext e crt key caDir caFile ops g = (p, g')"
  shows "(x509Verify p \<longleftrightarrow> CA_paths_copied e crt key caDir caFile ops g)
       \<and> (peer_verification_enabled p \<longrightarrow> x509Verify p)
       \<and> (Context p \<noteq> None \<longrightarrow> (x509Verify p \<longleftrightarrow> peer_verification_enabled p))"
proof -
  have a: "x509Verify p \<longleftrightarrow> CA_paths_copied e crt key caDir caFile ops g"
    using x509Verify_ctor [of e crt key caDir caFile ops g] assms
    by simp
  have b: "x509Verify p \<longleftrightarrow> peer_verification_enabled p" if h: "Context p \<noteq> None"
  proof -
    obtain c k d f where s: "spec_defaults e crt key caDir caFile ops = (c, k, d, f)"
      by (cases "spec_defaults e crt key caDir caFile ops") auto
    from h obtain sc where sc: "ctx p = Some sc" by (auto simp: Context_def)
    from ctor_success [OF assms sc s] obtain meth where
      r: "sc = committed_ctx e meth c k d f ops (sslCiphers g)"
         "Parm p = effective_Parm c k d f ops" "VerPaths e c k d f = Inr ()"
      by blast
    from x509Verify_effective [OF r(3,2)] r(1) sc show ?thesis
      by (auto simp: committed_ctx_def peer_verification_enabled_def Context_def)
  qed
  have c: "x509Verify p" if "peer_verification_enabled p"
  proof -
    from that have "Context p \<noteq> None"
      by (auto simp: peer_verification_enabled_def split: option.splits)
    with b that show ?thesis by simp
  qed
  from a b c show ?thesis by blast
qed

theorem x509Verify_copied_witness:
  "CA_paths_copied scenario (Some ''/tmp/c.pem'') (Some ''/tmp/k.pem'') (Some ''/etc/ca'') None 0
     (start scenario)
   \<and> Context (fst (XrdTlsContext scenario (Some ''/tmp/c.pem'') (Some ''/tmp/k.pem'')
                     (Some ''/etc/ca'') None 0 (start scenario))) \<noteq> None
   \<and> x509Verify (fst (XrdTlsContext scenario (Some ''/tmp/c.pem'') (Some ''/tmp/k.pem'')
                        (Some ''/etc/ca'') None 0 (start scenario)))
   \<and> peer_verification_enabled (fst (XrdTlsContext scenario (Some ''/tmp/c.pem'')
        (Some ''/tmp/k.pem'') (Some ''/etc/ca'') None 0 (start scenario)))"
proof -
  have h: "CA_paths_copied scenario (Some ''/tmp/c.pem'') (Some ''/tmp/k.pem'') (Some ''/etc/ca'')
             None 0 (start scenario)"
    by (rule happy_CA_copied)
  have n: "Context (fst (XrdTlsContext scenario (Some ''/tmp/c.pem'') (Some ''/tmp/k.pem'')
                     (Some ''/etc/ca'') None 0 (start scenario))) \<noteq> None"
    by (simp add: happy_build Context_def)
  from x509Verify_copied [OF prod.collapse [symmetric], of scenario "Some ''/tmp/c.pem''"
      "Some ''/tmp/k.pem''" "Some ''/etc/ca''" None 0 "start scenario"] h n
  show ?thesis by blast
qed

text \<open>
  C4 as stated takes a true answer to mean that peer verification is enabled for the
  object: a build that copies a CA directory and then finds no negotiable method
  leaves an object with a null accessor of which \<open>x509Verify\<close> is true.
\<close>

theorem x509Verify_null_accessor_counterexample:
  "x509Verify (fst (XrdTlsContext no_method None None (Some ''/etc/ca'') None 0 (start no_method)))
   \<and> Context (fst (XrdTlsContext no_method None None (Some ''/etc/ca'') None 0 (start no_method)))
       = None
   \<and> \<not> peer_verification_enabled
         (fst (XrdTlsContext no_method None None (Some ''/etc/ca'') None 0 (start no_method)))"
proof -
  have eq: "XrdTlsContext no_method None None (Some ''/etc/ca'') None 0 (start no_method)
              = configure no_method None None (Some ''/etc/ca'') None 0 (new_Impl no_method)
                  (InitTLS no_method (start no_method))"
    by (rule ctor_configure [OF no_method_facts(1,2,3,4)])
  have "\<not> configuration_passes no_method None None (Some ''/etc/ca'') None
            (sslCiphers (InitTLS no_method (start no_method)))"
    using no_method_facts(5) by (simp add: InitTLS_sslCiphers)
  from configure_fail [OF this, of 0 "new_Impl no_method"]
  have n: "Context (fst (XrdTlsContext no_method None None (Some ''/etc/ca'') None 0
             (start no_method))) = None"
    by (simp add: eq Context_def new_Impl_def)
  have "Parm (fst (XrdTlsContext no_method None None (Some ''/etc/ca'') None 0 (start no_method)))
          = effective_Parm None None (Some ''/etc/ca'') None 0"
    by (simp add: eq configure_Parm)
  from x509Verify_effective [OF no_method_facts(4) this]
  have x: "x509Verify (fst (XrdTlsContext no_method None None (Some ''/etc/ca'') None 0
             (start no_method)))"
    by simp
  from n x show ?thesis by (simp add: peer_verification_enabled_def)
qed

text \<open>
  C5. The path validator is the table read from the top: the result is the first entry
  of \<open>path_entries\<close> that \<open>ValPath\<close> rejects, reported as the role text, the path,
  \<open>; \<close> and the reason, and the validator accepts exactly when every entry passes.
  In the table the certificate may grant owner rw, group rwx, other r when a key path
  is given, and owner rw only when none is.
\<close>

theorem VerPaths_first_failure:
  "VerPaths e crt pky cadr cafl = first_failure e (path_entries crt pky cadr cafl)
   \<and> (VerPaths e crt pky cadr cafl = Inr ()
        \<longleftrightarrow> (\<forall>(r, p, k, d) \<in> set (path_entries crt pky cadr cafl). ValPath e p k d = None))
   \<and> (\<forall>m. VerPaths e crt pky cadr cafl = Inl m \<longrightarrow>
        (\<exists>pre role path allow isdir emsg post.
           path_entries crt pky cadr cafl = pre @ (role, path, allow, isdir) # post
         \<and> (\<forall>(r, p, k, d) \<in> set pre. ValPath e p k d = None)
         \<and> ValPath e path allow isdir = Some emsg
         \<and> m = role @ path @ ''; '' @ emsg))"
  using first_failure_Inl [of e "path_entries crt pky cadr cafl"]
        first_failure_Inr [of e "path_entries crt pky cadr cafl"]
  by (simp only: VerPaths_table) blast

theorem VerPaths_first_failure_witness:
  "VerPaths scenario (Some ''/tmp/c.pem'') (Some ''/tmp/k640.pem'') (Some ''/etc/ca'') None
     = Inl ''Unable to use key file /tmp/k640.pem; has excessive access rights.''
   \<and> (\<exists>pre role path allow isdir emsg post.
         path_entries (Some ''/tmp/c.pem'') (Some ''/tmp/k640.pem'') (Some ''/etc/ca'') None
           = pre @ (role, path, allow, isdir) # post
       \<and> (\<forall>(r, p, k, d) \<in> set pre. ValPath scenario p k d = None)
       \<and> ValPath scenario path allow isdir = Some emsg
       \<and> ''Unable to use key file /tmp/k640.pem; has excessive access rights.''
            = role @ path @ ''; '' @ emsg)"
  using permissive_key
    VerPaths_first_failure [of scenario "Some ''/tmp/c.pem''" "Some ''/tmp/k640.pem''" "Some ''/etc/ca''" None]
  by blast

text \<open>
  C6. Once past the initialisation gate: a client build with no CA path supplied and
  neither \<open>X509_CERT_DIR\<close> nor \<open>X509_CERT_FILE\<close> set ends with a null accessor and
  the diagnostic that no location of trusted CA certificates could be determined; any
  other build validates, and on success stores, the paths of \<open>spec_defaults\<close>: the
  environment's values for what a client left unsupplied, the given paths unchanged
  when the server bit is set.
\<close>

theorem client_defaulting:
  assumes "XrdTlsContext e crt key caDir caFile ops g = (p, g')"
    and "initDone g \<or> OPENSSL_THREADS e"
  shows "(ops AND servr e = 0 \<and> caDir = None \<and> caFile = None
            \<and> getenv e ''X509_CERT_DIR'' = None \<and> getenv e ''X509_CERT_FILE'' = None
          \<longrightarrow> Context p = None
              \<and> sink g' = sink g @
                  [\<lparr>component = ''Tls_Context'',
                    message = ''Unable to determine the location of trusted CA certificates to verify peer identify; this is required!'',
                    isError = False\<rparr>])
       \<and> (\<not> (ops AND servr e = 0 \<and> caDir = None \<and> caFile = None
               \<and> getenv e ''X509_CERT_DIR'' = None \<and> getenv e ''X509_CERT_FILE'' = None)
          \<longrightarrow> (case spec_defaults e crt key caDir caFile ops of
                 (c, k, d, f) \<Rightarrow>
                   (case VerPaths e c k d f of
                      Inl eText \<Rightarrow>
                        Context p = None
                      \<and> sink g' = sink g @
                          [\<lparr>component = ''TLS_Context'', message = eText, isError = False\<rparr>]
                    | Inr _ \<Rightarrow> GetParams p = effective_Parm c k d f ops)))"
proof (cases "no_CA_known e crt key caDir caFile ops")
  case True
  from ctor_no_CA [OF assms(2) True] assms(1)
  have "p = new_Impl e" "g' = msgCB ''Tls_Context'' no_CA_text False (InitTLS e g)" by simp_all
  then have "Context p = None \<and> sink g' = sink g @
                  [\<lparr>component = ''Tls_Context'', message = no_CA_text, isError = False\<rparr>]"
    by (simp add: Context_def new_Impl_def msgCB_def InitTLS_sink)
  with True show ?thesis by (simp add: no_CA_known_def no_CA_text_def)
next
  case known: False
  obtain c k d f where s: "spec_defaults e crt key caDir caFile ops = (c, k, d, f)"
    by (cases "spec_defaults e crt key caDir caFile ops") auto
  have "case VerPaths e c k d f of
          Inl eText \<Rightarrow>
            Context p = None
          \<and> sink g' = sink g @ [\<lparr>component = ''TLS_Context'', message = eText, isError = False\<rparr>]
        | Inr _ \<Rightarrow> GetParams p = effective_Parm c k d f ops"
  proof (cases "VerPaths e c k d f")
    case (Inl eText)
    from ctor_bad_path [OF assms(2) known s Inl] assms(1) Inl show ?thesis
      by (auto simp add: Context_def new_Impl_def msgCB_def InitTLS_sink)
  next
    case (Inr u)
    then have v: "VerPaths e c k d f = Inr ()" by simp
    from ctor_configure [OF assms(2) known s v] assms(1)
    have cfg: "configure e c k d f ops (new_Impl e) (InitTLS e g) = (p, g')" by simp
    have "Parm p = effective_Parm c k d f ops"
      using configure_Parm [of e c k d f ops "InitTLS e g"] unfolding cfg by simp
    with Inr show ?thesis by (simp add: GetParams_def)
  qed
  then have main: "case spec_defaults e crt key caDir caFile ops of
          (c, k, d, f) \<Rightarrow>
            (case VerPaths e c k d f of
               Inl eText \<Rightarrow>
                 Context p = None
               \<and> sink g' = sink g @
                   [\<lparr>component = ''TLS_Context'', message = eText, isError = False\<rparr>]
             | Inr _ \<Rightarrow> GetParams p = effective_Parm c k d f ops)"
    by (simp only: s prod.case)
  from known have k2: "\<not> (ops AND servr e = 0 \<and> caDir = None \<and> caFile = None
               \<and> getenv e ''X509_CERT_DIR'' = None \<and> getenv e ''X509_CERT_FILE'' = None)"
    unfolding no_CA_known_def .
  show ?thesis
  proof (intro conjI impI)
    assume "ops AND servr e = 0 \<and> caDir = None \<and> caFile = None
               \<and> getenv e ''X509_CERT_DIR'' = None \<and> getenv e ''X509_CERT_FILE'' = None"
    with k2 show "Context p = None" by (rule notE)
  next
    assume "ops AND servr e = 0 \<and> caDir = None \<and> caFile = None
               \<and> getenv e ''X509_CERT_DIR'' = None \<and> getenv e ''X509_CERT_FILE'' = None"
    with k2 show "sink g' = sink g @
                  [\<lparr>component = ''Tls_Context'',
                    message = ''Unable to determine the location of trusted CA certificates to verify peer identify; this is required!'',
                    isError = False\<rparr>]" by (rule notE)
  next
    show "case spec_defaults e crt key caDir caFile ops of
          (c, k, d, f) \<Rightarrow>
            (case VerPaths e c k d f of
               Inl eText \<Rightarrow>
                 Context p = None
               \<and> sink g' = sink g @
                   [\<lparr>component = ''TLS_Context'', message = eText, isError = False\<rparr>]
             | Inr _ \<Rightarrow> GetParams p = effective_Parm c k d f ops)"
      by (rule main)
  qed
qed

theorem client_defaulting_witness:
  "Context (fst (XrdTlsContext scenario None None None None 0 (start scenario))) = None
   \<and> sink (snd (XrdTlsContext scenario None None None None 0 (start scenario)))
       = [\<lparr>component = ''Tls_Context'',
           message = ''Unable to determine the location of trusted CA certificates to verify peer identify; this is required!'',
           isError = False\<rparr>]
   \<and> GetParams (fst (XrdTlsContext proxy_client None None None None 0 (start proxy_client)))
       = \<lparr>cert = ''/tmp/bundle.pem'', pkey = [], cadir = ''/etc/ca'', cafile = [], opts = 0\<rparr>"
proof -
  have g: "initDone (start scenario) \<or> OPENSSL_THREADS scenario"
    by (simp add: scenario_gate)
  from client_defaulting [where e = scenario and crt = None and key = None and caDir = None
      and caFile = None and ops = 0 and g = "start scenario", OF prod.collapse [symmetric] g]
    scenario_no_CA
  have a: "Context (fst (XrdTlsContext scenario None None None None 0 (start scenario))) = None
   \<and> sink (snd (XrdTlsContext scenario None None None None 0 (start scenario)))
       = sink (start scenario) @ [\<lparr>component = ''Tls_Context'',
           message = ''Unable to determine the location of trusted CA certificates to verify peer identify; this is required!'',
           isError = False\<rparr>]"
    by blast
  from client_defaulting [where e = proxy_client and crt = None and key = None and caDir = None
      and caFile = None and ops = 0 and g = "start proxy_client",
      OF prod.collapse [symmetric] proxy_client_facts(1), THEN conjunct2, THEN mp,
      OF proxy_client_facts(2)]
  have b: "GetParams (fst (XrdTlsContext proxy_client None None None None 0 (start proxy_client)))
       = \<lparr>cert = ''/tmp/bundle.pem'', pkey = [], cadir = ''/etc/ca'', cafile = [], opts = 0\<rparr>"
    by (simp add: proxy_client_facts(3,4) effective_Parm_def)
  from a b show ?thesis by (simp add: start_def)
qed

text \<open>
  C7. With \<open>(d, f)\<close> the CA directory and file after defaulting: a build in which
  every step passes leaves a native context with the verification policy of the
  specification for \<open>(d, f)\<close> and \<open>opts\<close>, and so does any build whose accessor is
  non-null. The step itself, on whatever native context \<open>c0\<close> it is given: when the
  CA locations do not load it sets nothing and the build ends with a null accessor;
  otherwise it yields a context with that policy.
\<close>

theorem verify_policy:
  assumes "XrdTlsContext e crt key caDir caFile ops g = (p, g')"
    and "spec_defaults e crt key caDir caFile ops = (c, k, d, f)"
  shows "(every_step_passes e crt key caDir caFile ops g
            \<longrightarrow> (\<exists>sc. Context p = Some sc \<and> verification_policy e ops d f sc))
       \<and> (\<forall>sc. Context p = Some sc \<longrightarrow> verification_policy e ops d f sc)
       \<and> ((d \<noteq> None \<or> f \<noteq> None) \<and> SSL_CTX_load_verify_locations e f d = 0
            \<longrightarrow> set_verify e ops d f c0 = None \<and> Context p = None)
       \<and> (\<not> ((d \<noteq> None \<or> f \<noteq> None) \<and> SSL_CTX_load_verify_locations e f d = 0)
            \<longrightarrow> (case set_verify e ops d f c0 of
                   None \<Rightarrow> False
                 | Some c1 \<Rightarrow> verification_policy e ops d f c1))"
proof -
  have a: "\<exists>sc. Context p = Some sc \<and> verification_policy e ops d f sc"
    if pass: "every_step_passes e crt key caDir caFile ops g"
  proof -
    from ctor_pass [OF pass] assms obtain meth where
      "p = \<lparr>ctx = Some (committed_ctx e meth c k d f ops (sslCiphers g)),
            Parm = effective_Parm c k d f ops\<rparr>"
      by (auto simp: defaulting_spec split: if_splits)
    then show ?thesis by (simp add: Context_def committed_verification)
  qed
  have b: "verification_policy e ops d f sc" if h: "Context p = Some sc" for sc
  proof -
    from h have "ctx p = Some sc" by (simp add: Context_def)
    from ctor_success [OF assms(1) this assms(2)] show ?thesis
      by (auto simp: committed_verification)
  qed
  have c: "set_verify e ops d f c0 = None \<and> Context p = None"
    if "(d \<noteq> None \<or> f \<noteq> None) \<and> SSL_CTX_load_verify_locations e f d = 0"
    using that ctor_load_fails [OF assms(2), of g] assms(1)
    by (simp add: set_verify_fails Context_def)
  have d: "case set_verify e ops d f c0 of
             None \<Rightarrow> False | Some c1 \<Rightarrow> verification_policy e ops d f c1"
    if "\<not> ((d \<noteq> None \<or> f \<noteq> None) \<and> SSL_CTX_load_verify_locations e f d = 0)"
    by (simp add: set_verify_policy [OF that] policy_verification)
  from a b c d show ?thesis by blast
qed

theorem verify_policy_witness:
  "Context (fst (XrdTlsContext scenario (Some ''/tmp/c.pem'') (Some ''/tmp/k.pem'') (Some ''/etc/ca'')
                   None 0x40000300 (start scenario))) \<noteq> None
   \<and> verify_depth (the (Context (fst (XrdTlsContext scenario (Some ''/tmp/c.pem'')
        (Some ''/tmp/k.pem'') (Some ''/etc/ca'') None 0x40000300 (start scenario))))) = Some 3
   \<and> verify (the (Context (fst (XrdTlsContext scenario (Some ''/tmp/c.pem'')
        (Some ''/tmp/k.pem'') (Some ''/etc/ca'') None 0x40000300 (start scenario)))))
       = Some SSL_VERIFY_PEER
   \<and> verify_callback (the (Context (fst (XrdTlsContext scenario (Some ''/tmp/c.pem'')
        (Some ''/tmp/k.pem'') (Some ''/etc/ca'') None 0x40000300 (start scenario)))))
       = Some VerCB_installed
   \<and> Context (fst (XrdTlsContext scenario None None None None 0x20000000 (start scenario))) \<noteq> None
   \<and> verify (the (Context (fst (XrdTlsContext scenario None None None None 0x20000000
        (start scenario))))) = Some SSL_VERIFY_NONE
   \<and> verify_callback (the (Context (fst (XrdTlsContext scenario None None None None 0x20000000
        (start scenario))))) = None"
proof -
  from verify_policy [OF prod.collapse [symmetric] logged_facts(1), THEN conjunct1, THEN mp,
      OF logged_passes]
  obtain sc where
    "Context (fst (XrdTlsContext scenario (Some ''/tmp/c.pem'') (Some ''/tmp/k.pem'')
                     (Some ''/etc/ca'') None 0x40000300 (start scenario))) = Some sc"
    "verification_policy scenario 0x40000300 (Some ''/etc/ca'') None sc"
    by blast
  then have a: "Context (fst (XrdTlsContext scenario (Some ''/tmp/c.pem'') (Some ''/tmp/k.pem'')
                   (Some ''/etc/ca'') None 0x40000300 (start scenario))) \<noteq> None
   \<and> verify_depth (the (Context (fst (XrdTlsContext scenario (Some ''/tmp/c.pem'')
        (Some ''/tmp/k.pem'') (Some ''/etc/ca'') None 0x40000300 (start scenario))))) = Some 3
   \<and> verify (the (Context (fst (XrdTlsContext scenario (Some ''/tmp/c.pem'')
        (Some ''/tmp/k.pem'') (Some ''/etc/ca'') None 0x40000300 (start scenario)))))
       = Some SSL_VERIFY_PEER
   \<and> verify_callback (the (Context (fst (XrdTlsContext scenario (Some ''/tmp/c.pem'')
        (Some ''/tmp/k.pem'') (Some ''/etc/ca'') None 0x40000300 (start scenario)))))
       = Some VerCB_installed"
    by (simp add: verification_policy_def logged_facts)
  from verify_policy [OF prod.collapse [symmetric] anonymous_server_facts(2), THEN conjunct1,
      THEN mp, OF anonymous_server_facts(1)]
  obtain sc' where
    "Context (fst (XrdTlsContext scenario None None None None 0x20000000 (start scenario)))
       = Some sc'"
    "verification_policy scenario 0x20000000 None None sc'"
    by blast
  then have b: "Context (fst (XrdTlsContext scenario None None None None 0x20000000
                   (start scenario))) \<noteq> None
   \<and> verify (the (Context (fst (XrdTlsContext scenario None None None None 0x20000000
        (start scenario))))) = Some SSL_VERIFY_NONE
   \<and> verify_callback (the (Context (fst (XrdTlsContext scenario None None None None 0x20000000
        (start scenario))))) = None"
    by (simp add: verification_policy_def)
  from a b show ?thesis by simp
qed

text \<open>
  C8. \<open>Clone\<close> runs the constructor on the stored Parameters and returns the new
  object when its accessor is non-null, nothing otherwise. For an object that a
  successful build returned, any clone that is returned has the same Parameters; and
  with the cipher list unchanged and the initialisation gate open, a clone is
  returned.
\<close>

theorem Clone_replays:
  "Clone e p g =
     (let r = XrdTlsContext e (replay (cert (Parm p))) (replay (pkey (Parm p)))
                (replay (cadir (Parm p))) (replay (cafile (Parm p))) (opts (Parm p)) g
      in (if Context (fst r) \<noteq> None then Some (fst r) else None, snd r))
   \<and> (XrdTlsContext e crt key caDir caFile ops g0 = (p, g1) \<and> Context p \<noteq> None
      \<longrightarrow> (\<forall>q. fst (Clone e p g) = Some q \<longrightarrow> GetParams q = GetParams p)
        \<and> (sslCiphers g = sslCiphers g0 \<and> (initDone g \<or> OPENSSL_THREADS e)
            \<longrightarrow> (\<exists>q. Clone e p g = (Some q, InitTLS e g)
                     \<and> Context q \<noteq> None \<and> GetParams q = GetParams p)))"
proof -
  have a: "GetParams q = GetParams p"
    if "XrdTlsContext e crt key caDir caFile ops g0 = (p, g1)" "Context p \<noteq> None"
       "fst (Clone e p g) = Some q" for q
    using Clone_Parm [OF that] by (simp add: GetParams_def)
  have b: "\<exists>q. Clone e p g = (Some q, InitTLS e g) \<and> Context q \<noteq> None \<and> GetParams q = GetParams p"
    if "XrdTlsContext e crt key caDir caFile ops g0 = (p, g1)" "Context p \<noteq> None"
       "sslCiphers g = sslCiphers g0" "initDone g \<or> OPENSSL_THREADS e"
    using Clone_of_built [OF that] that(2) by simp
  from a b Clone_replay [of e p g] show ?thesis by blast
qed

theorem Clone_replays_witness:
  "fst (Clone scenario
          \<lparr>ctx = Some (committed_ctx scenario TLS_any (Some ''/tmp/c.pem'') (Some ''/tmp/k.pem'')
                        (Some ''/etc/ca'') None 0 (sslCiphers (start scenario))),
           Parm = effective_Parm (Some ''/tmp/c.pem'') (Some ''/tmp/k.pem'') (Some ''/etc/ca'') None 0\<rparr>
          (InitTLS scenario (start scenario))) \<noteq> None
   \<and> GetParams (the (fst (Clone scenario
          \<lparr>ctx = Some (committed_ctx scenario TLS_any (Some ''/tmp/c.pem'') (Some ''/tmp/k.pem'')
                        (Some ''/etc/ca'') None 0 (sslCiphers (start scenario))),
           Parm = effective_Parm (Some ''/tmp/c.pem'') (Some ''/tmp/k.pem'') (Some ''/etc/ca'') None 0\<rparr>
          (InitTLS scenario (start scenario)))))
       = \<lparr>cert = ''/tmp/c.pem'', pkey = ''/tmp/k.pem'', cadir = ''/etc/ca'', cafile = [], opts = 0\<rparr>"
proof -
  let ?p = "\<lparr>ctx = Some (committed_ctx scenario TLS_any (Some ''/tmp/c.pem'') (Some ''/tmp/k.pem'')
                        (Some ''/etc/ca'') None 0 (sslCiphers (start scenario))),
           Parm = effective_Parm (Some ''/tmp/c.pem'') (Some ''/tmp/k.pem'') (Some ''/etc/ca'') None 0\<rparr>"
  let ?g = "InitTLS scenario (start scenario)"
  have h: "XrdTlsContext scenario (Some ''/tmp/c.pem'') (Some ''/tmp/k.pem'') (Some ''/etc/ca'') None 0
             (start scenario) = (?p, ?g) \<and> Context ?p \<noteq> None"
    using happy_build by (simp add: Context_def)
  have k: "sslCiphers ?g = sslCiphers (start scenario) \<and> (initDone ?g \<or> OPENSSL_THREADS scenario)"
    by (simp add: InitTLS_sslCiphers InitTLS_sets)
  from Clone_replays [of scenario ?p ?g "Some ''/tmp/c.pem''" "Some ''/tmp/k.pem''"
      "Some ''/etc/ca''" None 0 "start scenario" ?g] h k
  obtain q where "Clone scenario ?p ?g = (Some q, InitTLS scenario ?g)"
    "GetParams q = GetParams ?p"
    by blast
  then show ?thesis by (simp add: GetParams_def effective_Parm_def)
qed

text \<open>
  C9. \<open>InitTLS\<close> is idempotent; a call that finds \<open>initDone\<close> set changes nothing; the
  first call sets the flag, makes the six library calls and, where the callbacks are
  compiled in, installs the thread-id callback and (for a positive number of locks)
  the mutex array and the locking callback; however often it is called from the start
  of the process, the library set-up is made once; and the constructor changes the
  globals (the sink apart) only by that first call.
\<close>

theorem InitTLS_once:
  "InitTLS e (InitTLS e g) = InitTLS e g
   \<and> (initDone g \<longrightarrow> InitTLS e g = g)
   \<and> (\<not> initDone g \<longrightarrow>
        InitTLS e g =
          (if XRDTLS_SET_CALLBACKS e
           then (if 0 < CRYPTO_num_locks e
                 then g\<lparr>initDone := True, lib_calls := lib_calls g @ library_init,
                        MutexVector := Some (nat (CRYPTO_num_locks e)),
                        locking_callback := True, id_callback := True\<rparr>
                 else g\<lparr>initDone := True, lib_calls := lib_calls g @ library_init,
                        id_callback := True\<rparr>)
           else g\<lparr>initDone := True, lib_calls := lib_calls g @ library_init\<rparr>))
   \<and> lib_calls ((InitTLS e ^^ Suc n) (start e)) = library_init
   \<and> (snd (XrdTlsContext e crt key caDir caFile ops g))\<lparr>sink := sink g\<rparr>
        = (if initDone g \<or> \<not> OPENSSL_THREADS e then g else InitTLS e g)"
proof -
  have a: "InitTLS e (InitTLS e g) = InitTLS e g"
    by (rule InitTLS_done) (rule InitTLS_sets)
  have b: "lib_calls ((InitTLS e ^^ Suc n) (start e)) = library_init"
    unfolding InitTLS_funpow by (simp add: InitTLS_def start_def Let_def)
  have c: "after_gate e g = (if initDone g \<or> \<not> OPENSSL_THREADS e then g else InitTLS e g)"
    by (auto simp: after_gate_def InitTLS_done)
  show ?thesis
    using a b InitTLS_done [where g = g and e = e] InitTLS_first [where g = g and e = e]
      ctor_globals [where e = e and g = g and crt = crt and key = key and caDir = caDir
        and caFile = caFile and ops = ops] c
    by simp
qed

theorem InitTLS_once_witness:
  "\<not> initDone (start legacy)
   \<and> InitTLS legacy (start legacy) =
       (start legacy)\<lparr>initDone := True, lib_calls := lib_calls (start legacy) @ library_init,
                       MutexVector := Some 41, locking_callback := True, id_callback := True\<rparr>
   \<and> initDone (InitTLS legacy (start legacy))
   \<and> InitTLS legacy (InitTLS legacy (start legacy)) = InitTLS legacy (start legacy)"
proof -
  have n: "\<not> initDone (start legacy)" by (simp add: start_def)
  have s: "XRDTLS_SET_CALLBACKS legacy" "CRYPTO_num_locks legacy = 41"
    by (simp_all add: XRDTLS_SET_CALLBACKS_def legacy_def scenario_def)
  from n s InitTLS_once [of legacy "start legacy" 0 None None None None 0]
  have f: "InitTLS legacy (start legacy) =
       (start legacy)\<lparr>initDone := True, lib_calls := lib_calls (start legacy) @ library_init,
                       MutexVector := Some 41, locking_callback := True, id_callback := True\<rparr>"
    by simp
  then have d: "initDone (InitTLS legacy (start legacy))" by simp
  from d InitTLS_once [of legacy "InitTLS legacy (start legacy)" 0 None None None None 0]
  have "InitTLS legacy (InitTLS legacy (start legacy)) = InitTLS legacy (start legacy)"
    by blast
  with n f d show ?thesis by blast
qed

text \<open>
  C10. A build that passes the gate, the defaulting and the path validation and then
  fails at a later step returns an object with a null accessor whose Parameters hold
  the paths after defaulting; \<open>x509Verify\<close> is true of it exactly when a CA path is
  among them.
\<close>

theorem failed_build_keeps_Parm:
  assumes "XrdTlsContext e crt key caDir caFile ops g = (p, g')"
    and "initDone g \<or> OPENSSL_THREADS e"
    and "\<not> no_CA_known e crt key caDir caFile ops"
    and "spec_defaults e crt key caDir caFile ops = (c, k, d, f)"
    and "VerPaths e c k d f = Inr ()"
    and "\<not> configuration_passes e c k d f (sslCiphers g)"
  shows "Context p = None
       \<and> GetParams p = effective_Parm c k d f ops
       \<and> (x509Verify p \<longleftrightarrow> d \<noteq> None \<or> f \<noteq> None)"
proof -
  have eq: "XrdTlsContext e crt key caDir caFile ops g
              = configure e c k d f ops (new_Impl e) (InitTLS e g)"
    by (rule ctor_configure [OF assms(2,3,4,5)])
  with assms(1) have cfg: "configure e c k d f ops (new_Impl e) (InitTLS e g) = (p, g')"
    by simp
  have P: "Parm p = effective_Parm c k d f ops"
    using configure_Parm [of e c k d f ops "InitTLS e g"] unfolding cfg by simp
  have "\<not> configuration_passes e c k d f (sslCiphers (InitTLS e g))"
    using assms(6) by (simp add: InitTLS_sslCiphers)
  from configure_fail [OF this, of ops "new_Impl e"]
  have "ctx p = None" unfolding cfg by (simp add: new_Impl_def)
  with P x509Verify_effective [OF assms(5) P] show ?thesis
    by (simp add: Context_def GetParams_def)
qed

theorem failed_build_keeps_Parm_witness:
  "Context (fst (XrdTlsContext no_method None None (Some ''/etc/ca'') None 0 (start no_method))) = None
   \<and> GetParams (fst (XrdTlsContext no_method None None (Some ''/etc/ca'') None 0 (start no_method)))
       = \<lparr>cert = [], pkey = [], cadir = ''/etc/ca'', cafile = [], opts = 0\<rparr>
   \<and> x509Verify (fst (XrdTlsContext no_method None None (Some ''/etc/ca'') None 0 (start no_method)))"
  using failed_build_keeps_Parm [OF prod.collapse [symmetric] no_method_facts]
  by (simp add: effective_Parm_def)

end
